theory Spec2Isabelle
  imports Complex_Main
begin

chapter \<open>Fee-abstracted transfers and the HTTP 402 payment flow\<close>

text \<open>
  A shallow embedding of the TypeScript sources: the USDC operations and the Kora
  JSON-RPC client (\<^verbatim>\<open>usdc.ts\<close>, \<^verbatim>\<open>kora.ts\<close>), the x402 payment flow
  (\<^verbatim>\<open>conway/x402.ts\<close>) and the agent registration (\<^verbatim>\<open>registry/solana-registry.ts\<close>).

  Conventions of the model.
  \<^item> A JavaScript string is a \<^typ>\<open>string\<close>; a character is one code unit below 256
    (ASCII and Latin-1), which covers every literal of the sources.
  \<^item> A JavaScript number that carries a token amount is the rational value of a finite
    double; \<^verbatim>\<open>NaN\<close> and the infinities are not modelled. A product or quotient that
    the runtime rounds is taken from the runtime (\<open>numberTimes\<close>, \<open>numberDivide\<close>);
    halving, comparing, \<^verbatim>\<open>Math.floor\<close> and \<^verbatim>\<open>Math.round\<close> are exact. Status codes are
    naturals and JSON-RPC error codes are integers.
  \<^item> A thrown value is a \<open>thrown\<close>; a computation that may throw returns
    \<open>thrown + 'a\<close> with \<open>Inl\<close> for the exception.
  \<^item> Every call that leaves the module (HTTP, Solana RPC, the Kora client, the
    transaction library) takes its outcome from an oracle supplied by the caller of the
    model and is appended to a log together with the fact whether it returned.
\<close>

section \<open>JavaScript strings and numbers\<close>

text \<open>\<^verbatim>\<open>String.prototype.trim\<close>: white space and line terminators below code unit 256.\<close>

definition isWhiteSpace :: "char \<Rightarrow> bool" where
  "isWhiteSpace c =
     (c \<in> set [CHR 0x09, CHR 0x0A, CHR 0x0B, CHR 0x0C, CHR 0x0D, CHR 0x20, CHR 0xA0])"

definition trim :: "string \<Rightarrow> string" where
  "trim s = rev (dropWhile isWhiteSpace (rev (dropWhile isWhiteSpace s)))"

text \<open>
  \<^verbatim>\<open>String.prototype.toLowerCase\<close>: the upper-case letters below 256 are A to Z and
  the Latin-1 block 0xC0 to 0xDE without the multiplication sign 0xD7; the lower-case
  letter is 32 code units above, which sets the third most significant bit.
\<close>

definition isUpperCase :: "char \<Rightarrow> bool" where
  "isUpperCase c = (let n = (of_char c :: nat) in
     (65 \<le> n \<and> n \<le> 90) \<or> (192 \<le> n \<and> n \<le> 222 \<and> n \<noteq> 215))"

fun lowerChar :: "char \<Rightarrow> char" where
  "lowerChar (Char b0 b1 b2 b3 b4 b5 b6 b7) =
     (if isUpperCase (Char b0 b1 b2 b3 b4 b5 b6 b7) then Char b0 b1 b2 b3 b4 True b6 b7
      else Char b0 b1 b2 b3 b4 b5 b6 b7)"

definition toLowerCase :: "string \<Rightarrow> string" where
  "toLowerCase s = map lowerChar s"

text \<open>\<^verbatim>\<open>String.prototype.includes\<close>: the needle occurs at some position of the string.\<close>

fun startsWith :: "string \<Rightarrow> string \<Rightarrow> bool" where
  "startsWith s [] = True"
| "startsWith [] (c # cs) = False"
| "startsWith (d # ds) (c # cs) = (d = c \<and> startsWith ds cs)"

fun includesStr :: "string \<Rightarrow> string \<Rightarrow> bool" where
  "includesStr [] needle = (needle = [])"
| "includesStr (d # ds) needle = (startsWith (d # ds) needle \<or> includesStr ds needle)"

text \<open>
  The decimal rendering of an integral number inside a template literal. It is the
  rendering of JavaScript for integers below \<open>10\<^sup>2\<^sup>1\<close> in magnitude.
\<close>

definition digitChar :: "nat \<Rightarrow> char" where
  "digitChar d = ''0123456789'' ! (d mod 10)"

function showNat :: "nat \<Rightarrow> string" where
  "showNat n = (if n < 10 then [digitChar n] else showNat (n div 10) @ [digitChar n])"
  by pat_completeness auto
termination
  by (relation "measure id") auto

declare showNat.simps [simp del]

definition showInt :: "int \<Rightarrow> string" where
  "showInt i = (if i < 0 then ''-'' @ showNat (nat (- i)) else showNat (nat i))"

section \<open>Network names of the 402 flow (\<^verbatim>\<open>x402.ts\<close>)\<close>

definition resolveCluster :: "string \<Rightarrow> string" where
  "resolveCluster cluster =
     (let c = toLowerCase (trim cluster) in
      if c = ''mainnet'' \<or> c = ''mainnet-beta'' \<or> c = ''solana-mainnet'' then ''mainnet-beta''
      else if c = ''devnet'' \<or> c = ''solana-devnet'' then ''devnet''
      else if c = ''testnet'' \<or> c = ''solana-testnet'' then ''testnet''
      else ''devnet'')"

section \<open>Exceptions and logged calls\<close>

text \<open>
  A thrown value, as far as the sources look at it: its \<^verbatim>\<open>message\<close> property when it
  is a string, and the result of \<^verbatim>\<open>String(err)\<close>. A \<^verbatim>\<open>message\<close> that is not a string
  is outside the model.
\<close>

datatype thrown = Thrown (thrownMessage: "string option") (thrownString: string)

text \<open>\<^verbatim>\<open>new Error(msg)\<close> and \<^verbatim>\<open>new TypeError(msg)\<close>.\<close>

definition Error :: "string \<Rightarrow> thrown" where
  "Error msg = Thrown (Some msg) (if msg = [] then ''Error'' else ''Error: '' @ msg)"


text \<open>\<^verbatim>\<open>err?.message || String(err)\<close>: an empty message is falsy.\<close>

definition errorText :: "thrown \<Rightarrow> string" where
  "errorText err =
     (case thrownMessage err of
        Some m \<Rightarrow> if m = [] then thrownString err else m
      | None \<Rightarrow> thrownString err)"

text \<open>JSON values; an object is the list of its properties, one entry for each key.\<close>

datatype json =
    JNull
  | JBool bool
  | JNum rat
  | JStr string
  | JArr "json list"
  | JObj "(string \<times> json) list"

type_synonym bytes = "nat list"
type_synonym pubkey = string
type_synonym connection = "string option"

record keypair =
  publicKey :: pubkey
  secretKey :: bytes

record TransferTransactionRequest =
  amount :: int
  token :: string
  source :: string
  destination :: string

record TransferTransactionResponse =
  tt_blockhash :: string
  tt_transaction :: string
  tt_signer_pubkey :: string
  tt_message :: string

record SignAndSendTransactionResponse =
  sas_signature :: string
  sas_signed_transaction :: string
  sas_signer_pubkey :: string

record SignTransactionResponse =
  st_signature :: string
  st_signed_transaction :: string

record http_request =
  req_url :: string
  req_method :: string
  req_headers :: "string \<rightharpoonup> string"
  req_body :: "string option"

text \<open>The JSON-RPC envelope whose JSON text is the body of a request to Kora.\<close>

record rpc_envelope =
  env_jsonrpc :: string
  env_id :: nat
  env_method :: string
  env_params :: json

text \<open>Every operation that is not code of the sources, as it appears in the log.\<close>

datatype call =
    NewConnection "string option"
  | NewPublicKey string
  | GetAssociatedTokenAddress pubkey pubkey
  | GetTokenAccountBalance connection pubkey
  | GetOrCreateAssociatedTokenAccount connection pubkey pubkey
  | SplTransfer connection pubkey pubkey int
  | GetLatestBlockhash connection
  | KoraTransferTransaction TransferTransactionRequest
  | KoraSignAndSendTransaction string
  | KoraSignTransaction string
  | VersionedDeserialize bytes
  | VersionedSign
  | VersionedSerialize
  | LegacyFrom bytes
  | LegacyPartialSign
  | LegacySerialize bool
  | LegacyTransfer pubkey pubkey int
  | LegacySign
  | Fetch http_request
  | RpcFetch string rpc_envelope
  | ReadJson
  | ReadText
  | CreateUmi "string option"
  | UseKoraPlugin
  | CreateV1 bool string string pubkey
  | Sleep nat

text \<open>
  A run is the log of the calls made, each with the fact whether it returned, and
  the outcome: \<open>Inl\<close> an exception that leaves the function, \<open>Inr\<close> its value.
\<close>

type_synonym 'a run = "(call \<times> bool) list \<times> (thrown + 'a)"

definition run_return :: "'a \<Rightarrow> 'a run" where
  "run_return x = ([], Inr x)"

definition run_throw :: "thrown \<Rightarrow> 'a run" where
  "run_throw e = ([], Inl e)"

definition run_call :: "call \<Rightarrow> thrown + 'a \<Rightarrow> 'a run" where
  "run_call c outcome = ([(c, case outcome of Inl _ \<Rightarrow> False | Inr _ \<Rightarrow> True)], outcome)"

definition run_bind :: "'a run \<Rightarrow> ('a \<Rightarrow> 'b run) \<Rightarrow> 'b run" where
  "run_bind m f =
     (case m of
        (tr, Inl e) \<Rightarrow> (tr, Inl e)
      | (tr, Inr x) \<Rightarrow> (case f x of (tr', r) \<Rightarrow> (tr @ tr', r)))"

text \<open>\<^verbatim>\<open>try { m } catch (e) { h(e) }\<close>.\<close>

definition run_catch :: "'a run \<Rightarrow> (thrown \<Rightarrow> 'a run) \<Rightarrow> 'a run" where
  "run_catch m h =
     (case m of
        (tr, Inl e) \<Rightarrow> (case h e of (tr', r) \<Rightarrow> (tr @ tr', r))
      | (tr, Inr x) \<Rightarrow> (tr, Inr x))"

section \<open>Base64 of a buffer\<close>

text \<open>\<^verbatim>\<open>Buffer.prototype.toString("base64")\<close>: the standard alphabet with padding.\<close>

definition base64Alphabet :: string where
  "base64Alphabet = ''ABCDEFGHIJKLMNOPQRSTUVWXYZabcdefghijklmnopqrstuvwxyz0123456789+/''"

definition base64Char :: "nat \<Rightarrow> char" where
  "base64Char n = base64Alphabet ! (n mod 64)"

fun base64Encode :: "bytes \<Rightarrow> string" where
  "base64Encode [] = []"
| "base64Encode [a] =
     [base64Char (a div 4), base64Char ((a mod 4) * 16), CHR ''='', CHR ''='']"
| "base64Encode [a, b] =
     [base64Char (a div 4), base64Char ((a mod 4) * 16 + b div 16),
      base64Char ((b mod 16) * 4), CHR ''='']"
| "base64Encode (a # b # c # rest) =
     [base64Char (a div 4), base64Char ((a mod 4) * 16 + b div 16),
      base64Char ((b mod 16) * 4 + c div 64), base64Char (c mod 64)] @ base64Encode rest"

section \<open>The collaborators\<close>

text \<open>
  The Kora client as its callers see it (\<^verbatim>\<open>KoraClient\<close>, or the mock of the tests):
  the outcome of each remote operation.
\<close>

record kora_client =
  transferTransaction :: "TransferTransactionRequest \<Rightarrow> thrown + TransferTransactionResponse"
  signAndSendTransaction :: "string \<Rightarrow> thrown + SignAndSendTransactionResponse"
  signTransaction :: "string \<Rightarrow> thrown + SignTransactionResponse"

text \<open>
  The Solana libraries and the runtime: \<^verbatim>\<open>@solana/web3.js\<close>, \<^verbatim>\<open>@solana/spl-token\<close>,
  \<^verbatim>\<open>Buffer\<close>, \<^verbatim>\<open>JSON\<close>, \<^verbatim>\<open>Number\<close>. \<open>'v\<close> is a \<^verbatim>\<open>VersionedTransaction\<close> and \<open>'l\<close> a
  legacy \<^verbatim>\<open>Transaction\<close>; a signing method returns the object it has changed.
  \<open>newConnection\<close> is \<^verbatim>\<open>new Connection(endpoint, "confirmed")\<close>, which rejects an
  endpoint that is no HTTP URL; \<open>numberTimes\<close> and \<open>numberDivide\<close> are the product
  and the quotient of two numbers as the runtime rounds them.
\<close>

record ('v, 'l) library =
  newConnection :: "string option \<Rightarrow> thrown + connection"
  newPublicKey :: "string \<Rightarrow> thrown + pubkey"
  getAssociatedTokenAddress :: "pubkey \<Rightarrow> pubkey \<Rightarrow> thrown + pubkey"
  getTokenAccountBalance :: "connection \<Rightarrow> pubkey \<Rightarrow> thrown + rat option"
  getOrCreateAssociatedTokenAccount ::
    "connection \<Rightarrow> keypair \<Rightarrow> pubkey \<Rightarrow> pubkey \<Rightarrow> thrown + pubkey"
  splTransfer ::
    "connection \<Rightarrow> keypair \<Rightarrow> pubkey \<Rightarrow> pubkey \<Rightarrow> pubkey \<Rightarrow> int \<Rightarrow> thrown + string"
  getLatestBlockhash :: "connection \<Rightarrow> thrown + string \<times> nat"
  bufferFromBase64 :: "string \<Rightarrow> bytes"
  versionedDeserialize :: "bytes \<Rightarrow> thrown + 'v"
  versionedSign :: "'v \<Rightarrow> keypair \<Rightarrow> thrown + 'v"
  versionedSerialize :: "'v \<Rightarrow> thrown + bytes"
  legacyFrom :: "bytes \<Rightarrow> thrown + 'l"
  legacyPartialSign :: "'l \<Rightarrow> keypair \<Rightarrow> thrown + 'l"
  legacySerialize :: "'l \<Rightarrow> bool \<Rightarrow> thrown + bytes"
  legacyTransfer ::
    "pubkey \<Rightarrow> string \<Rightarrow> nat \<Rightarrow> pubkey \<Rightarrow> pubkey \<Rightarrow> pubkey \<Rightarrow> int \<Rightarrow> thrown + 'l"
  legacySign :: "'l \<Rightarrow> keypair \<Rightarrow> thrown + 'l"
  toFixed :: "rat \<Rightarrow> nat \<Rightarrow> string"
  numberTimes :: "rat \<Rightarrow> rat \<Rightarrow> rat"
  numberDivide :: "rat \<Rightarrow> rat \<Rightarrow> rat"
  JSON_parse :: "string \<Rightarrow> json option"

section \<open>USDC operations (\<^verbatim>\<open>usdc.ts\<close>)\<close>

definition USDC_MINT :: "string \<rightharpoonup> string" where
  "USDC_MINT =
     [''mainnet-beta'' \<mapsto> ''EPjFWdd5AufqSSqeM2qN1xzybapC8G4wEGGkZwyTDt1v'',
      ''devnet'' \<mapsto> ''4zMMC9srt5Ri5X14GAgXhaHii3GnPAEERYPJgZJDncDU'',
      ''testnet'' \<mapsto> ''4zMMC9srt5Ri5X14GAgXhaHii3GnPAEERYPJgZJDncDU'']"

definition RPC_URLS :: "string \<rightharpoonup> string" where
  "RPC_URLS =
     [''mainnet-beta'' \<mapsto> ''https://api.mainnet-beta.solana.com'',
      ''devnet'' \<mapsto> ''https://api.devnet.solana.com'',
      ''testnet'' \<mapsto> ''https://api.testnet.solana.com'']"

text \<open>\<^verbatim>\<open>rpcUrl || RPC_URLS[network]\<close>: an absent or empty \<^verbatim>\<open>rpcUrl\<close> is falsy.\<close>

definition rpcEndpoint :: "string option \<Rightarrow> string \<Rightarrow> string option" where
  "rpcEndpoint rpcUrl network =
     (case rpcUrl of
        Some u \<Rightarrow> if u = [] then RPC_URLS network else Some u
      | None \<Rightarrow> RPC_URLS network)"

record UsdcBalanceResult =
  ub_balance :: rat
  ub_network :: string
  ub_ok :: bool
  ub_error :: "string option"

text \<open>The body of the \<^verbatim>\<open>try\<close> block of \<^verbatim>\<open>getUsdcBalanceDetailed\<close>.\<close>

definition balanceQuery ::
  "('v, 'l) library \<Rightarrow> connection \<Rightarrow> string \<Rightarrow> string \<Rightarrow> rat run" where
  "balanceQuery lib conn address usdcMint =
     run_bind (run_call (NewPublicKey address) (newPublicKey lib address)) (\<lambda>owner.
     run_bind (run_call (NewPublicKey usdcMint) (newPublicKey lib usdcMint)) (\<lambda>mint.
     run_bind (run_call (GetAssociatedTokenAddress mint owner)
                 (getAssociatedTokenAddress lib mint owner)) (\<lambda>ata.
     run_bind (run_call (GetTokenAccountBalance conn ata)
                 (getTokenAccountBalance lib conn ata)) (\<lambda>uiAmount.
     run_return (case uiAmount of Some v \<Rightarrow> v | None \<Rightarrow> 0)))))"

definition isMissingAccount :: "thrown \<Rightarrow> bool" where
  "isMissingAccount err =
     (case thrownMessage err of
        Some m \<Rightarrow> includesStr m ''could not find account''
      | None \<Rightarrow> False)"

definition getUsdcBalanceDetailed ::
  "('v, 'l) library \<Rightarrow> string \<Rightarrow> string \<Rightarrow> string option \<Rightarrow> UsdcBalanceResult run" where
  "getUsdcBalanceDetailed lib address network rpcUrl =
     (case USDC_MINT network of
        None \<Rightarrow>
          run_return \<lparr>ub_balance = 0, ub_network = network, ub_ok = False,
                      ub_error = Some (''Unsupported network: '' @ network)\<rparr>
      | Some usdcMint \<Rightarrow>
          run_bind (run_call (NewConnection (rpcEndpoint rpcUrl network))
                      (newConnection lib (rpcEndpoint rpcUrl network))) (\<lambda>conn.
          run_catch
            (run_bind (balanceQuery lib conn address usdcMint)
               (\<lambda>balance.
                  run_return \<lparr>ub_balance = balance, ub_network = network, ub_ok = True,
                              ub_error = None\<rparr>))
            (\<lambda>err.
               if isMissingAccount err
               then run_return \<lparr>ub_balance = 0, ub_network = network, ub_ok = True,
                                 ub_error = None\<rparr>
               else run_return \<lparr>ub_balance = 0, ub_network = network, ub_ok = False,
                                 ub_error = Some (errorText err)\<rparr>)))"

definition getUsdcBalance ::
  "('v, 'l) library \<Rightarrow> string \<Rightarrow> string \<Rightarrow> string option \<Rightarrow> rat run" where
  "getUsdcBalance lib address network rpcUrl =
     run_bind (getUsdcBalanceDetailed lib address network rpcUrl)
       (\<lambda>result. run_return (ub_balance result))"

record TransferResult =
  success :: bool
  txSignature :: "string option"
  error :: "string option"

text \<open>
  The inner \<^verbatim>\<open>try\<close>/\<^verbatim>\<open>catch\<close> of the fee-payer path, which \<^verbatim>\<open>usdc.ts\<close> and
  \<^verbatim>\<open>x402.ts\<close> both contain: the versioned decoding, signing and serialising
  are tried first, and whatever they throw leads to the legacy ones.
\<close>

definition partiallySign :: "('v, 'l) library \<Rightarrow> keypair \<Rightarrow> bytes \<Rightarrow> string run" where
  "partiallySign lib kp txBytes =
     run_catch
       (run_bind (run_call (VersionedDeserialize txBytes) (versionedDeserialize lib txBytes))
          (\<lambda>versionedTx.
        run_bind (run_call VersionedSign (versionedSign lib versionedTx kp)) (\<lambda>signed.
        run_bind (run_call VersionedSerialize (versionedSerialize lib signed)) (\<lambda>out.
        run_return (base64Encode out)))))
       (\<lambda>_.
        run_bind (run_call (LegacyFrom txBytes) (legacyFrom lib txBytes)) (\<lambda>legacyTx.
        run_bind (run_call LegacyPartialSign (legacyPartialSign lib legacyTx kp)) (\<lambda>signed.
        run_bind (run_call (LegacySerialize False) (legacySerialize lib signed False)) (\<lambda>out.
        run_return (base64Encode out)))))"

text \<open>The body of the \<^verbatim>\<open>try\<close> block of \<^verbatim>\<open>transferUsdcViaKora\<close>.\<close>

definition koraTransferSteps ::
  "('v, 'l) library \<Rightarrow> kora_client \<Rightarrow> keypair \<Rightarrow> string \<Rightarrow> int \<Rightarrow> string
     \<Rightarrow> TransferResult run" where
  "koraTransferSteps lib kora kp recipientAddress amountRaw usdcMint =
     (let request = \<lparr>amount = amountRaw, token = usdcMint, source = publicKey kp,
                     destination = recipientAddress\<rparr>
      in run_bind (run_call (KoraTransferTransaction request)
                     (transferTransaction kora request)) (\<lambda>built.
         run_bind (partiallySign lib kp (bufferFromBase64 lib (tt_transaction built)))
           (\<lambda>partiallySignedBase64.
         run_bind (run_call (KoraSignAndSendTransaction partiallySignedBase64)
                     (signAndSendTransaction kora partiallySignedBase64)) (\<lambda>result.
         run_return \<lparr>success = True, txSignature = Some (sas_signature result),
                     error = None\<rparr>))))"

definition transferUsdcViaKora ::
  "('v, 'l) library \<Rightarrow> kora_client \<Rightarrow> keypair \<Rightarrow> string \<Rightarrow> rat \<Rightarrow> string
     \<Rightarrow> TransferResult run" where
  "transferUsdcViaKora lib kora kp recipientAddress amountUSDC network =
     (case USDC_MINT network of
        None \<Rightarrow>
          run_return \<lparr>success = False, txSignature = None,
                      error = Some (''Unsupported network: '' @ network)\<rparr>
      | Some usdcMint \<Rightarrow>
          run_catch
            (koraTransferSteps lib kora kp recipientAddress
               \<lfloor>numberTimes lib amountUSDC 1000000\<rfloor> usdcMint)
            (\<lambda>err.
               run_return \<lparr>success = False, txSignature = None,
                           error = Some (''Kora transfer failed: '' @ errorText err)\<rparr>))"

text \<open>The body of the \<^verbatim>\<open>try\<close> block of the direct path of \<^verbatim>\<open>transferUsdc\<close>.\<close>

definition directTransferSteps ::
  "('v, 'l) library \<Rightarrow> connection \<Rightarrow> keypair \<Rightarrow> pubkey \<Rightarrow> pubkey \<Rightarrow> rat
     \<Rightarrow> TransferResult run" where
  "directTransferSteps lib conn kp mint recipient amountUSDC =
     run_bind (run_call (GetOrCreateAssociatedTokenAccount conn mint (publicKey kp))
                 (getOrCreateAssociatedTokenAccount lib conn kp mint (publicKey kp)))
       (\<lambda>senderATA.
     run_bind (run_call (GetOrCreateAssociatedTokenAccount conn mint recipient)
                 (getOrCreateAssociatedTokenAccount lib conn kp mint recipient))
       (\<lambda>recipientATA.
     run_bind (run_call
                 (SplTransfer conn senderATA recipientATA
                    \<lfloor>numberTimes lib amountUSDC 1000000\<rfloor>)
                 (splTransfer lib conn kp senderATA recipientATA (publicKey kp)
                    \<lfloor>numberTimes lib amountUSDC 1000000\<rfloor>)) (\<lambda>txSig.
     run_return \<lparr>success = True, txSignature = Some txSig, error = None\<rparr>)))"

definition safetyLimitMessage :: "('v, 'l) library \<Rightarrow> rat \<Rightarrow> string" where
  "safetyLimitMessage lib balance =
     ''Safety limit: cannot send more than 50% of balance ('' @ toFixed lib balance 4
       @ '' USDC) in one transfer''"

definition transferUsdc ::
  "('v, 'l) library \<Rightarrow> keypair \<Rightarrow> string \<Rightarrow> rat \<Rightarrow> string \<Rightarrow> string option
     \<Rightarrow> kora_client option \<Rightarrow> TransferResult run" where
  "transferUsdc lib kp recipientAddress amountUSDC network rpcUrl koraClient =
     run_bind (getUsdcBalance lib (publicKey kp) network rpcUrl) (\<lambda>balance.
       if amountUSDC > balance * (1 / 2)
       then run_return \<lparr>success = False, txSignature = None,
                         error = Some (safetyLimitMessage lib balance)\<rparr>
       else
         (case koraClient of
            Some kora \<Rightarrow> transferUsdcViaKora lib kora kp recipientAddress amountUSDC network
          | None \<Rightarrow>
              (case USDC_MINT network of
                 None \<Rightarrow>
                   run_return \<lparr>success = False, txSignature = None,
                               error = Some (''Unsupported network: '' @ network)\<rparr>
               | Some usdcMint \<Rightarrow>
                   run_bind (run_call (NewConnection (rpcEndpoint rpcUrl network))
                               (newConnection lib (rpcEndpoint rpcUrl network))) (\<lambda>conn.
                   run_bind (run_call (NewPublicKey usdcMint) (newPublicKey lib usdcMint))
                     (\<lambda>mint.
                   run_bind (run_call (NewPublicKey recipientAddress)
                               (newPublicKey lib recipientAddress)) (\<lambda>recipient.
                   run_catch
                     (directTransferSteps lib conn kp mint recipient amountUSDC)
                     (\<lambda>err.
                        run_return \<lparr>success = False, txSignature = None,
                                    error = Some (errorText err)\<rparr>)))))))"

text \<open>Which calls change something on the network or ask Kora to act.\<close>

fun mutatesNetwork :: "call \<Rightarrow> bool" where
  "mutatesNetwork (KoraTransferTransaction _) = True"
| "mutatesNetwork (KoraSignAndSendTransaction _) = True"
| "mutatesNetwork (KoraSignTransaction _) = True"
| "mutatesNetwork (GetOrCreateAssociatedTokenAccount _ _ _) = True"
| "mutatesNetwork (SplTransfer _ _ _ _) = True"
| "mutatesNetwork (CreateV1 _ _ _ _) = True"
| "mutatesNetwork _ = False"

section \<open>The Kora JSON-RPC client (\<^verbatim>\<open>kora.ts\<close>)\<close>

text \<open>
  A response of \<^verbatim>\<open>fetch\<close>: the status line and what reading the body as JSON or as
  text gives. \<^verbatim>\<open>Response.ok\<close> is true for the statuses 200 to 299.
\<close>

record 'b response =
  resp_status :: nat
  resp_statusText :: string
  resp_json :: "thrown + 'b"
  resp_text :: "thrown + string"

definition responseOk :: "'b response \<Rightarrow> bool" where
  "responseOk r = (200 \<le> resp_status r \<and> resp_status r \<le> 299)"

text \<open>The body of a JSON-RPC response, at the type the client casts it to.\<close>

record rpc_error =
  err_code :: int
  err_message :: string

record 'r rpc_body =
  rpc_result :: "'r option"
  rpc_error :: "rpc_error option"

record KoraConfig =
  cfg_rpcUrl :: string

text \<open>
  \<^verbatim>\<open>KoraClient.rpc\<close>. The oracle \<open>fetch\<close> answers the POST of an envelope to a URL;
  the result is \<^verbatim>\<open>json.result\<close>, which may be absent.
\<close>

definition rpc ::
  "(string \<Rightarrow> rpc_envelope \<Rightarrow> thrown + 'r rpc_body response) \<Rightarrow> KoraConfig \<Rightarrow> string \<Rightarrow> json
     \<Rightarrow> 'r option run" where
  "rpc fetch this method params =
     (let envelope = \<lparr>env_jsonrpc = ''2.0'', env_id = 1, env_method = method,
                      env_params = params\<rparr>
      in run_bind (run_call (RpcFetch (cfg_rpcUrl this) envelope)
                     (fetch (cfg_rpcUrl this) envelope)) (\<lambda>response.
         if \<not> responseOk response
         then run_throw (Error (''Kora RPC HTTP error: '' @ showNat (resp_status response)
                                  @ '' '' @ resp_statusText response))
         else run_bind (run_call ReadJson (resp_json response)) (\<lambda>body.
                case rpc_error body of
                  Some e \<Rightarrow>
                    run_throw (Error (''Kora RPC error ['' @ showInt (err_code e) @ '']: ''
                                        @ err_message e))
                | None \<Rightarrow> run_return (rpc_result body))))"

section \<open>Agent registration (\<^verbatim>\<open>solana-registry.ts\<close>)\<close>









section \<open>The HTTP 402 payment flow (\<^verbatim>\<open>x402.ts\<close>)\<close>

definition X402_NETWORK :: "string \<rightharpoonup> string" where
  "X402_NETWORK =
     [''mainnet-beta'' \<mapsto> ''solana-mainnet'',
      ''devnet'' \<mapsto> ''solana-devnet'',
      ''testnet'' \<mapsto> ''solana-testnet'']"

record SolanaPaymentRequirements =
  pr_recipientWallet :: string
  pr_tokenAccount :: string
  pr_mint :: string
  pr_amount :: rat
  pr_amountUSDC :: rat
  pr_cluster :: string
  pr_message :: "string option"

record X402Payload =
  serializedTransaction :: string

record X402PaymentPayload =
  x402Version :: nat
  scheme :: string
  pp_network :: string
  payload :: X402Payload

record X402PaymentResult =
  x_success :: bool
  x_response :: "json option"
  x_error :: "string option"
  x_status :: "nat option"

text \<open>Property access: a property of an object, \<^verbatim>\<open>undefined\<close> on anything else.\<close>

fun getProp :: "json \<Rightarrow> string \<Rightarrow> json option" where
  "getProp (JObj kvs) k = map_of kvs k"
| "getProp _ k = None"

text \<open>\<^verbatim>\<open>typeof v === "object" && v !== null\<close>: objects and arrays.\<close>

fun isObject :: "json \<Rightarrow> bool" where
  "isObject (JObj _) = True"
| "isObject (JArr _) = True"
| "isObject _ = False"

text \<open>\<^verbatim>\<open>typeof o.k === "string" ? o.k : null\<close>, and the same for numbers.\<close>

definition stringProp :: "json \<Rightarrow> string \<Rightarrow> string option" where
  "stringProp obj k = (case getProp obj k of Some (JStr s) \<Rightarrow> Some s | _ \<Rightarrow> None)"

definition numberProp :: "json \<Rightarrow> string \<Rightarrow> rat option" where
  "numberProp obj k = (case getProp obj k of Some (JNum n) \<Rightarrow> Some n | _ \<Rightarrow> None)"

text \<open>\<^verbatim>\<open>!s\<close> for a string or \<^verbatim>\<open>null\<close>: both \<^verbatim>\<open>null\<close> and the empty string are falsy.\<close>

definition falsy :: "string option \<Rightarrow> bool" where
  "falsy s = (case s of None \<Rightarrow> True | Some t \<Rightarrow> t = [])"

definition parsePaymentRequirements ::
  "('v, 'l) library \<Rightarrow> json \<Rightarrow> SolanaPaymentRequirements option" where
  "parsePaymentRequirements lib body =
     (if \<not> isObject body then None
      else
        (let b = body;
             paymentObj = (case getProp b ''payment'' of
                             Some p \<Rightarrow> if isObject p then p else b
                           | None \<Rightarrow> b);
             tokenAccount = stringProp paymentObj ''tokenAccount'';
             mint = stringProp paymentObj ''mint'';
             amnt = numberProp paymentObj ''amount'';
             recipientWallet =
               (case stringProp paymentObj ''recipientWallet'' of
                  Some w \<Rightarrow> Some w
                | None \<Rightarrow> stringProp paymentObj ''recipient'');
             cluster =
               (case stringProp paymentObj ''cluster'' of
                  Some c \<Rightarrow> c
                | None \<Rightarrow>
                    (case stringProp paymentObj ''network'' of
                       Some n \<Rightarrow> n
                     | None \<Rightarrow> ''devnet''))
         in if falsy tokenAccount \<or> falsy mint \<or> amnt = None \<or> falsy recipientWallet
            then None
            else
              (case (tokenAccount, mint, amnt, recipientWallet) of
                 (Some ta, Some m, Some a, Some w) \<Rightarrow>
                   Some \<lparr>pr_recipientWallet = w, pr_tokenAccount = ta, pr_mint = m,
                         pr_amount = a,
                         pr_amountUSDC = (case numberProp paymentObj ''amountUSDC'' of
                                            Some u \<Rightarrow> u
                                          | None \<Rightarrow> numberDivide lib a 1000000),
                         pr_cluster = cluster,
                         pr_message = stringProp paymentObj ''message''\<rparr>
               | _ \<Rightarrow> None)))"

text \<open>
  \<^verbatim>\<open>JSON.stringify\<close> of a string: the quotation mark and the backslash are escaped,
  the control characters have a short escape or \<^verbatim>\<open>\u00XX\<close> in lower-case
  hexadecimal, every other character stands for itself.
\<close>

definition hexDigit :: "nat \<Rightarrow> char" where
  "hexDigit d = ''0123456789abcdef'' ! (d mod 16)"

definition escapeChar :: "char \<Rightarrow> string" where
  "escapeChar c =
     (if c = CHR 0x22 then [CHR 0x5C, CHR 0x22]
      else if c = CHR 0x5C then [CHR 0x5C, CHR 0x5C]
      else if c = CHR 0x08 then [CHR 0x5C, CHR ''b'']
      else if c = CHR 0x0C then [CHR 0x5C, CHR ''f'']
      else if c = CHR 0x0A then [CHR 0x5C, CHR ''n'']
      else if c = CHR 0x0D then [CHR 0x5C, CHR ''r'']
      else if c = CHR 0x09 then [CHR 0x5C, CHR ''t'']
      else if (of_char c :: nat) < 32
      then [CHR 0x5C, CHR ''u'', CHR ''0'', CHR ''0'',
            hexDigit ((of_char c :: nat) div 16), hexDigit (of_char c :: nat)]
      else [c])"

definition quoteJSONString :: "string \<Rightarrow> string" where
  "quoteJSONString s = CHR 0x22 # concat (map escapeChar s) @ [CHR 0x22]"

text \<open>\<^verbatim>\<open>JSON.stringify\<close> at the type \<^verbatim>\<open>X402PaymentPayload\<close>: the properties in order.\<close>

definition stringifyPayload :: "X402PaymentPayload \<Rightarrow> string" where
  "stringifyPayload p =
     ''{'' @ quoteJSONString ''x402Version'' @ '':'' @ showNat (x402Version p)
       @ '','' @ quoteJSONString ''scheme'' @ '':'' @ quoteJSONString (scheme p)
       @ '','' @ quoteJSONString ''network'' @ '':'' @ quoteJSONString (pp_network p)
       @ '','' @ quoteJSONString ''payload'' @ '':''
       @ ''{'' @ quoteJSONString ''serializedTransaction'' @ '':''
       @ quoteJSONString (serializedTransaction (payload p)) @ ''}'' @ ''}''"

text \<open>\<^verbatim>\<open>Buffer.from(text)\<close>: UTF-8, two bytes for a code unit from 128 to 255.\<close>

definition utf8Char :: "char \<Rightarrow> bytes" where
  "utf8Char c =
     (let n = (of_char c :: nat)
      in if n < 128 then [n] else [192 + n div 64, 128 + n mod 64])"

definition utf8Encode :: "string \<Rightarrow> bytes" where
  "utf8Encode s = concat (map utf8Char s)"

definition buildXPaymentHeader :: "string \<Rightarrow> string \<Rightarrow> string" where
  "buildXPaymentHeader serializedTx cluster =
     (let resolvedCluster = resolveCluster cluster;
          x402Network = (case X402_NETWORK resolvedCluster of
                           Some n \<Rightarrow> n
                         | None \<Rightarrow> ''solana-devnet'');
          p = \<lparr>x402Version = 1, scheme = ''exact'', pp_network = x402Network,
                payload = \<lparr>serializedTransaction = serializedTx\<rparr>\<rparr>
      in base64Encode (utf8Encode (stringifyPayload p)))"

text \<open>\<^verbatim>\<open>Math.round\<close>: the nearest integer, a half rounded up.\<close>

definition mathRound :: "rat \<Rightarrow> int" where
  "mathRound x = \<lfloor>x + 1 / 2\<rfloor>"

definition buildPaymentTransactionViaKora ::
  "('v, 'l) library \<Rightarrow> kora_client \<Rightarrow> keypair \<Rightarrow> SolanaPaymentRequirements \<Rightarrow> string run" where
  "buildPaymentTransactionViaKora lib kora kp requirements =
     (let request = \<lparr>amount = mathRound (pr_amount requirements),
                     token = pr_mint requirements, source = publicKey kp,
                     destination = pr_recipientWallet requirements\<rparr>
      in run_bind (run_call (KoraTransferTransaction request)
                     (transferTransaction kora request)) (\<lambda>built.
         run_bind (partiallySign lib kp (bufferFromBase64 lib (tt_transaction built)))
           (\<lambda>partiallySignedBase64.
         run_bind (run_call (KoraSignTransaction partiallySignedBase64)
                     (signTransaction kora partiallySignedBase64)) (\<lambda>signed.
         run_return (st_signed_transaction signed)))))"

definition buildPaymentTransaction ::
  "('v, 'l) library \<Rightarrow> keypair \<Rightarrow> SolanaPaymentRequirements \<Rightarrow> string option
     \<Rightarrow> kora_client option \<Rightarrow> string run" where
  "buildPaymentTransaction lib kp requirements rpcUrl koraClient =
     (case koraClient of
        Some kora \<Rightarrow> buildPaymentTransactionViaKora lib kora kp requirements
      | None \<Rightarrow>
          run_bind (run_call (NewConnection rpcUrl) (newConnection lib rpcUrl)) (\<lambda>conn.
          run_bind (run_call (NewPublicKey (pr_mint requirements))
                      (newPublicKey lib (pr_mint requirements))) (\<lambda>mint.
          run_bind (run_call (NewPublicKey (pr_tokenAccount requirements))
                      (newPublicKey lib (pr_tokenAccount requirements)))
            (\<lambda>recipientTokenAccount.
          run_bind (run_call (GetOrCreateAssociatedTokenAccount conn mint (publicKey kp))
                      (getOrCreateAssociatedTokenAccount lib conn kp mint (publicKey kp)))
            (\<lambda>senderTokenAccount.
          run_bind (run_call (GetLatestBlockhash conn) (getLatestBlockhash lib conn))
            (\<lambda>(blockhash, lastValidBlockHeight).
          run_bind (run_call
                      (LegacyTransfer senderTokenAccount recipientTokenAccount
                         (mathRound (pr_amount requirements)))
                      (legacyTransfer lib (publicKey kp) blockhash lastValidBlockHeight
                         senderTokenAccount recipientTokenAccount (publicKey kp)
                         (mathRound (pr_amount requirements)))) (\<lambda>tx.
          run_bind (run_call LegacySign (legacySign lib tx kp)) (\<lambda>signed.
          run_bind (run_call (LegacySerialize True) (legacySerialize lib signed True))
            (\<lambda>out.
          run_return (base64Encode out))))))))))"

text \<open>\<^verbatim>\<open>resp.json().catch(() => resp.text())\<close>; a text is a JSON string value.\<close>

definition readBody :: "json response \<Rightarrow> json run" where
  "readBody resp =
     run_catch (run_call ReadJson (resp_json resp))
       (\<lambda>_. run_bind (run_call ReadText (resp_text resp)) (\<lambda>t. run_return (JStr t)))"

text \<open>\<^verbatim>\<open>rpcUrl || RPC_URLS[cluster] || RPC_URLS.devnet\<close>.\<close>

definition x402Endpoint :: "string option \<Rightarrow> string \<Rightarrow> string option" where
  "x402Endpoint rpcUrl cluster =
     (case rpcEndpoint rpcUrl cluster of
        Some u \<Rightarrow> Some u
      | None \<Rightarrow> RPC_URLS ''devnet'')"

text \<open>
  \<^verbatim>\<open>x402Fetch\<close>. The oracle \<open>fetch\<close> answers a request, given the number of requests
  made before it in this run. The body of the outer \<^verbatim>\<open>try\<close> block comes first.
\<close>

definition x402Steps ::
  "('v, 'l) library \<Rightarrow> (nat \<Rightarrow> http_request \<Rightarrow> thrown + json response) \<Rightarrow> string \<Rightarrow> keypair
     \<Rightarrow> string \<Rightarrow> string option \<Rightarrow> (string \<rightharpoonup> string) \<Rightarrow> string option
     \<Rightarrow> kora_client option \<Rightarrow> X402PaymentResult run" where
  "x402Steps lib fetch url kp method body headers rpcUrl koraClient =
     (let initialReq = \<lparr>req_url = url, req_method = method,
                        req_headers = [''Content-Type'' \<mapsto> ''application/json''] ++ headers,
                        req_body = body\<rparr>
      in run_bind (run_call (Fetch initialReq) (fetch 0 initialReq)) (\<lambda>initialResp.
         if resp_status initialResp \<noteq> 402
         then run_bind (readBody initialResp) (\<lambda>data.
                run_return \<lparr>x_success = responseOk initialResp, x_response = Some data,
                            x_error = None, x_status = Some (resp_status initialResp)\<rparr>)
         else
           run_bind (run_call ReadText (resp_text initialResp)) (\<lambda>bodyText.
           (let bodyJson = (case JSON_parse lib bodyText of Some j \<Rightarrow> j | None \<Rightarrow> JNull)
            in case parsePaymentRequirements lib bodyJson of
                 None \<Rightarrow>
                   run_return
                     \<lparr>x_success = False, x_response = None,
                      x_error = Some ''Could not parse x402 payment requirements from 402 response'',
                      x_status = Some 402\<rparr>
               | Some requirements \<Rightarrow>
                   (let cluster = resolveCluster (pr_cluster requirements);
                        endpoint = x402Endpoint rpcUrl cluster
                    in run_bind
                         (run_catch
                            (run_bind
                               (buildPaymentTransaction lib kp requirements endpoint koraClient)
                               (\<lambda>tx. run_return (Inr tx)))
                            (\<lambda>err.
                               run_return
                                 (Inl \<lparr>x_success = False, x_response = None,
                                       x_error = Some (''Failed to build x402 payment transaction: ''
                                                         @ errorText err),
                                       x_status = Some 402\<rparr>)))
                         (\<lambda>built.
                            case built of
                              Inl failure \<Rightarrow> run_return failure
                            | Inr serializedTx \<Rightarrow>
                                (let xPaymentHeader = buildXPaymentHeader serializedTx cluster;
                                     paidReq =
                                       \<lparr>req_url = url, req_method = method,
                                        req_headers =
                                          ([''Content-Type'' \<mapsto> ''application/json''] ++ headers)
                                            (''X-Payment'' \<mapsto> xPaymentHeader),
                                        req_body = body\<rparr>
                                 in run_bind (run_call (Fetch paidReq) (fetch 1 paidReq))
                                      (\<lambda>paidResp.
                                    run_bind (readBody paidResp) (\<lambda>data.
                                    run_return
                                      \<lparr>x_success = responseOk paidResp,
                                       x_response = Some data, x_error = None,
                                       x_status = Some (resp_status paidResp)\<rparr>)))))))))"

definition x402Fetch ::
  "('v, 'l) library \<Rightarrow> (nat \<Rightarrow> http_request \<Rightarrow> thrown + json response) \<Rightarrow> string \<Rightarrow> keypair
     \<Rightarrow> string \<Rightarrow> string option \<Rightarrow> (string \<rightharpoonup> string) \<Rightarrow> string option
     \<Rightarrow> kora_client option \<Rightarrow> X402PaymentResult run" where
  "x402Fetch lib fetch url kp method body headers rpcUrl koraClient =
     run_catch (x402Steps lib fetch url kp method body headers rpcUrl koraClient)
       (\<lambda>err. run_return \<lparr>x_success = False, x_response = None,
                           x_error = Some (errorText err), x_status = None\<rparr>)"

text \<open>
  The calls whose exception a handler answers with another attempt: the reading of a
  body as JSON, which falls back on the text of the body, and the three steps of the
  versioned signing, which fall back on the legacy transaction.
\<close>

fun hasFallback :: "call \<Rightarrow> bool" where
  "hasFallback ReadJson = True"
| "hasFallback (VersionedDeserialize _) = True"
| "hasFallback VersionedSign = True"
| "hasFallback VersionedSerialize = True"
| "hasFallback _ = False"

section \<open>Reading an \<^verbatim>\<open>X-Payment\<close> header\<close>

text \<open>
  The receiving side, as the specification words it and as the tests do it:
  \<^verbatim>\<open>JSON.parse(Buffer.from(header, "base64").toString())\<close>. These definitions follow
  the formats (RFC 4648, UTF-8, RFC 8259), not the sources: they are what the
  header built by \<^verbatim>\<open>buildXPaymentHeader\<close> is compared with.
\<close>

fun indexOf :: "'a list \<Rightarrow> 'a \<Rightarrow> nat option" where
  "indexOf [] c = None"
| "indexOf (x # xs) c = (if x = c then Some 0 else map_option Suc (indexOf xs c))"

definition base64Index :: "char \<Rightarrow> nat option" where
  "base64Index c = indexOf base64Alphabet c"

text \<open>Three bytes from four sextets.\<close>

definition base64Triple :: "nat \<Rightarrow> nat \<Rightarrow> nat \<Rightarrow> nat \<Rightarrow> bytes" where
  "base64Triple x y z w = [x * 4 + y div 16, (y mod 16) * 16 + z div 4, (z mod 4) * 64 + w]"

fun base64Decode :: "string \<Rightarrow> bytes option" where
  "base64Decode [] = Some []"
| "base64Decode (a # b # c # d # rest) =
     (if c = CHR ''='' \<and> d = CHR ''='' then
        (case (base64Index a, base64Index b) of
           (Some x, Some y) \<Rightarrow> if rest = [] then Some [x * 4 + y div 16] else None
         | _ \<Rightarrow> None)
      else if d = CHR ''='' then
        (case (base64Index a, base64Index b, base64Index c) of
           (Some x, Some y, Some z) \<Rightarrow>
             if rest = [] then Some (take 2 (base64Triple x y z 0)) else None
         | _ \<Rightarrow> None)
      else
        (case (base64Index a, base64Index b, base64Index c, base64Index d) of
           (Some x, Some y, Some z, Some w) \<Rightarrow>
             map_option ((@) (base64Triple x y z w)) (base64Decode rest)
         | _ \<Rightarrow> None))"
| "base64Decode _ = None"

text \<open>UTF-8 for the code points below 256; any other sequence is not a string of the model.\<close>

fun utf8Decode :: "bytes \<Rightarrow> string option" where
  "utf8Decode [] = Some []"
| "utf8Decode [b] = (if b < 128 then Some [char_of b] else None)"
| "utf8Decode (b # c # cs) =
     (if b < 128 then map_option ((#) (char_of b)) (utf8Decode (c # cs))
      else if 194 \<le> b \<and> b < 196 \<and> 128 \<le> c \<and> c < 192
      then map_option ((#) (char_of ((b - 192) * 64 + (c - 128)))) (utf8Decode cs)
      else None)"

text \<open>A JSON text: white space, string literals, numbers, and the values.\<close>

definition isJsonSpace :: "char \<Rightarrow> bool" where
  "isJsonSpace c = (c \<in> set [CHR 0x20, CHR 0x09, CHR 0x0A, CHR 0x0D])"

definition skipSpace :: "string \<Rightarrow> string" where
  "skipSpace s = dropWhile isJsonSpace s"

definition hexValue :: "char \<Rightarrow> nat option" where
  "hexValue c =
     (case indexOf ''0123456789abcdef'' c of
        Some d \<Rightarrow> Some d
      | None \<Rightarrow> map_option (\<lambda>i. i + 10) (indexOf ''ABCDEF'' c))"

definition unescape :: "char \<Rightarrow> char option" where
  "unescape e =
     (if e = CHR 0x22 then Some (CHR 0x22)
      else if e = CHR 0x5C then Some (CHR 0x5C)
      else if e = CHR ''/'' then Some (CHR ''/'')
      else if e = CHR ''b'' then Some (CHR 0x08)
      else if e = CHR ''f'' then Some (CHR 0x0C)
      else if e = CHR ''n'' then Some (CHR 0x0A)
      else if e = CHR ''r'' then Some (CHR 0x0D)
      else if e = CHR ''t'' then Some (CHR 0x09)
      else None)"

definition consChar :: "char \<Rightarrow> (string \<times> string) option \<Rightarrow> (string \<times> string) option" where
  "consChar c r = map_option (\<lambda>(s, rest). (c # s, rest)) r"

text \<open>The characters of a string literal after its opening quotation mark.\<close>

fun parseStringBody :: "string \<Rightarrow> (string \<times> string) option" where
  "parseStringBody [] = None"
| "parseStringBody (c # cs) =
     (if c = CHR 0x22 then Some ([], cs)
      else if c = CHR 0x5C then
        (case cs of
           [] \<Rightarrow> None
         | e # es \<Rightarrow>
             if e = CHR ''u'' then
               (case es of
                  h1 # h2 # h3 # h4 # rest \<Rightarrow>
                    (case (hexValue h1, hexValue h2, hexValue h3, hexValue h4) of
                       (Some d1, Some d2, Some d3, Some d4) \<Rightarrow>
                         (let n = ((d1 * 16 + d2) * 16 + d3) * 16 + d4
                          in if n < 256 then consChar (char_of n) (parseStringBody rest)
                             else None)
                     | _ \<Rightarrow> None)
                | _ \<Rightarrow> None)
             else
               (case unescape e of
                  Some ch \<Rightarrow> consChar ch (parseStringBody es)
                | None \<Rightarrow> None))
      else if (of_char c :: nat) < 32 then None
      else consChar c (parseStringBody cs))"

definition isDigit :: "char \<Rightarrow> bool" where
  "isDigit c = (c \<in> set ''0123456789'')"

definition digitsValue :: "string \<Rightarrow> nat" where
  "digitsValue ds = foldl (\<lambda>acc c. acc * 10 + (of_char c - 48)) 0 ds"

text \<open>An optional fraction and an optional exponent, each with what follows it.\<close>

definition parseFraction :: "string \<Rightarrow> (rat \<times> string) option" where
  "parseFraction s =
     (case s of
        c # r \<Rightarrow>
          if c = CHR ''.'' then
            (let ds = takeWhile isDigit r
             in if ds = [] then None
                else Some (of_nat (digitsValue ds) / 10 ^ length ds, dropWhile isDigit r))
          else Some (0, s)
      | [] \<Rightarrow> Some (0, s))"

definition parseExponent :: "string \<Rightarrow> (int \<times> string) option" where
  "parseExponent s =
     (case s of
        c # r \<Rightarrow>
          if c = CHR ''e'' \<or> c = CHR ''E'' then
            (let negative = (case r of d # _ \<Rightarrow> d = CHR ''-'' | [] \<Rightarrow> False);
                 signed = (case r of d # _ \<Rightarrow> d = CHR ''-'' \<or> d = CHR ''+'' | [] \<Rightarrow> False);
                 r1 = (if signed then tl r else r);
                 ds = takeWhile isDigit r1
             in if ds = [] then None
                else Some ((if negative then - int (digitsValue ds) else int (digitsValue ds)),
                           dropWhile isDigit r1))
          else Some (0, s)
      | [] \<Rightarrow> Some (0, s))"

definition parseNumber :: "string \<Rightarrow> (rat \<times> string) option" where
  "parseNumber s =
     (let negative = (case s of c # _ \<Rightarrow> c = CHR ''-'' | [] \<Rightarrow> False);
          s1 = (if negative then tl s else s);
          ds = takeWhile isDigit s1
      in if ds = [] \<or> (length ds > 1 \<and> hd ds = CHR ''0'') then None
         else
           (case parseFraction (dropWhile isDigit s1) of
              None \<Rightarrow> None
            | Some (fraction, s2) \<Rightarrow>
                (case parseExponent s2 of
                   None \<Rightarrow> None
                 | Some (ex, s3) \<Rightarrow>
                     (let magnitude = (of_nat (digitsValue ds) + fraction)
                                        * (if ex < 0 then 1 / 10 ^ nat (- ex) else 10 ^ nat ex)
                      in Some (if negative then - magnitude else magnitude, s3)))))"

text \<open>A later member of an object replaces an earlier one with the same name.\<close>

definition addMember :: "string \<Rightarrow> json \<Rightarrow> (string \<times> json) list \<Rightarrow> (string \<times> json) list" where
  "addMember k v kvs = (if k \<in> set (map fst kvs) then kvs else (k, v) # kvs)"

text \<open>
  Values, the elements of an array after its bracket, and the members of an object
  after its brace. The first argument bounds the number of nested and successive
  values; the length of the text is enough.
\<close>

fun parseValue :: "nat \<Rightarrow> string \<Rightarrow> (json \<times> string) option"
  and parseElements :: "nat \<Rightarrow> string \<Rightarrow> (json list \<times> string) option"
  and parseMembers :: "nat \<Rightarrow> string \<Rightarrow> ((string \<times> json) list \<times> string) option" where
  "parseValue 0 s = None"
| "parseValue (Suc n) s =
     (case skipSpace s of
        [] \<Rightarrow> None
      | c # cs \<Rightarrow>
          if c = CHR ''{'' then
            (case skipSpace cs of
               [] \<Rightarrow> None
             | d # ds \<Rightarrow>
                 if d = CHR ''}'' then Some (JObj [], ds)
                 else map_option (\<lambda>(kvs, r). (JObj kvs, r)) (parseMembers n (d # ds)))
          else if c = CHR ''['' then
            (case skipSpace cs of
               [] \<Rightarrow> None
             | d # ds \<Rightarrow>
                 if d = CHR '']'' then Some (JArr [], ds)
                 else map_option (\<lambda>(vs, r). (JArr vs, r)) (parseElements n (d # ds)))
          else if c = CHR 0x22 then
            map_option (\<lambda>(str, r). (JStr str, r)) (parseStringBody cs)
          else if startsWith (c # cs) ''true'' then Some (JBool True, drop 4 (c # cs))
          else if startsWith (c # cs) ''false'' then Some (JBool False, drop 5 (c # cs))
          else if startsWith (c # cs) ''null'' then Some (JNull, drop 4 (c # cs))
          else map_option (\<lambda>(x, r). (JNum x, r)) (parseNumber (c # cs)))"
| "parseElements 0 s = None"
| "parseElements (Suc n) s =
     (case parseValue n s of
        None \<Rightarrow> None
      | Some (v, r) \<Rightarrow>
          (case skipSpace r of
             [] \<Rightarrow> None
           | d # ds \<Rightarrow>
               if d = CHR '','' then
                 map_option (\<lambda>(vs, r'). (v # vs, r')) (parseElements n ds)
               else if d = CHR '']'' then Some ([v], ds)
               else None))"
| "parseMembers 0 s = None"
| "parseMembers (Suc n) s =
     (case skipSpace s of
        [] \<Rightarrow> None
      | c # cs \<Rightarrow>
          if c = CHR 0x22 then
            (case parseStringBody cs of
               None \<Rightarrow> None
             | Some (k, r) \<Rightarrow>
                 (case skipSpace r of
                    [] \<Rightarrow> None
                  | d # ds \<Rightarrow>
                      if d = CHR '':'' then
                        (case parseValue n ds of
                           None \<Rightarrow> None
                         | Some (v, r') \<Rightarrow>
                             (case skipSpace r' of
                                [] \<Rightarrow> None
                              | e # es \<Rightarrow>
                                  if e = CHR '','' then
                                    map_option (\<lambda>(kvs, r''). (addMember k v kvs, r''))
                                      (parseMembers n es)
                                  else if e = CHR ''}'' then Some ([(k, v)], es)
                                  else None))
                      else None))
          else None)"

definition parseJson :: "string \<Rightarrow> json option" where
  "parseJson s =
     (case parseValue (Suc (length s)) s of
        None \<Rightarrow> None
      | Some (v, r) \<Rightarrow> if skipSpace r = [] then Some v else None)"

definition decodeXPaymentHeader :: "string \<Rightarrow> json option" where
  "decodeXPaymentHeader header =
     (case base64Decode header of
        None \<Rightarrow> None
      | Some bs \<Rightarrow>
          (case utf8Decode bs of
             None \<Rightarrow> None
           | Some s \<Rightarrow> parseJson s))"

section \<open>The collaborators of the test suites\<close>

text \<open>
  The mocks of \<^verbatim>\<open>usdc-kora.test.ts\<close> and \<^verbatim>\<open>x402-kora.test.ts\<close>: a balance of
  10 USDC, a versioned decoder that rejects every transaction, a legacy transaction
  that serialises to \<^verbatim>\<open>serializedTx\<close>, a \<^verbatim>\<open>Connection\<close> that accepts every endpoint.
  Their \<open>toFixed\<close> prints whole numbers only and their products and quotients are
  exact, which is all these runs need.
\<close>

definition mockKeypair :: keypair where
  "mockKeypair = \<lparr>publicKey = ''userWalletAddress'', secretKey = replicate 64 1\<rparr>"

definition mockLibrary :: "(unit, unit) library" where
  "mockLibrary =
     \<lparr>newConnection = (\<lambda>endpoint. Inr endpoint),
      newPublicKey = (\<lambda>s. Inr s),
      getAssociatedTokenAddress = (\<lambda>_ _. Inr ''mockATA''),
      getTokenAccountBalance = (\<lambda>_ _. Inr (Some 10)),
      getOrCreateAssociatedTokenAccount = (\<lambda>_ _ _ _. Inr ''mockATA''),
      splTransfer = (\<lambda>_ _ _ _ _ _. Inr ''directTransferSig''),
      getLatestBlockhash = (\<lambda>_. Inr (''testblockhash'', 100)),
      bufferFromBase64 = (\<lambda>_. [107, 111, 114, 97, 84, 120]),
      versionedDeserialize = (\<lambda>_. Inl (Error ''not a versioned tx'')),
      versionedSign = (\<lambda>v _. Inr v),
      versionedSerialize = (\<lambda>_. Inr []),
      legacyFrom = (\<lambda>_. Inr ()),
      legacyPartialSign = (\<lambda>l _. Inr l),
      legacySerialize = (\<lambda>_ _. Inr [115, 101, 114, 105, 97, 108, 105, 122, 101, 100, 84, 120]),
      legacyTransfer = (\<lambda>_ _ _ _ _ _ _. Inr ()),
      legacySign = (\<lambda>l _. Inr l),
      toFixed = (\<lambda>x _. showInt \<lfloor>x\<rfloor> @ ''.0000''),
      numberTimes = (\<lambda>x y. x * y),
      numberDivide = (\<lambda>x y. x / y),
      JSON_parse = parseJson\<rparr>"

definition mockKoraClient :: kora_client where
  "mockKoraClient =
     \<lparr>transferTransaction = (\<lambda>_. Inr \<lparr>tt_blockhash = ''bh'', tt_transaction = ''a29yYVR4'',
                                       tt_signer_pubkey = ''userPubkey'', tt_message = []\<rparr>),
      signAndSendTransaction = (\<lambda>_. Inr \<lparr>sas_signature = ''koraTxSig123'',
                                          sas_signed_transaction = ''signedTxBase64'',
                                          sas_signer_pubkey = ''koraFeePayer''\<rparr>),
      signTransaction = (\<lambda>_. Inr \<lparr>st_signature = ''koraSignOnly'',
                                   st_signed_transaction = ''signedOnly''\<rparr>)\<rparr>"


definition brokeLibrary :: "(unit, unit) library" where
  "brokeLibrary = mockLibrary\<lparr>getOrCreateAssociatedTokenAccount :=
      (\<lambda>_ _ _ _. Inl (Error ''insufficient lamports''))\<rparr>"

definition downKoraClient :: kora_client where
  "downKoraClient = mockKoraClient\<lparr>transferTransaction := (\<lambda>_. Inl (Error ''Kora server down''))\<rparr>"

definition deafKoraClient :: kora_client where
  "deafKoraClient =
     mockKoraClient\<lparr>signAndSendTransaction := (\<lambda>_. Inl (Error ''blockhash expired''))\<rparr>"

definition unsignableLibrary :: "(unit, unit) library" where
  "unsignableLibrary = mockLibrary\<lparr>legacyPartialSign := (\<lambda>_ _. Inl (Error ''unknown signer''))\<rparr>"

definition frozenLibrary :: "(unit, unit) library" where
  "frozenLibrary = mockLibrary\<lparr>splTransfer :=
      (\<lambda>_ _ _ _ _ _. Inl (Error ''account frozen''))\<rparr>"

text \<open>
  A library whose versioned decoder accepts the transaction and whose versioned
  signing rejects the key pair, the legacy transaction being as in the mocks.
\<close>

definition signRejectingLibrary :: "(unit, unit) library" where
  "signRejectingLibrary =
     mockLibrary\<lparr>versionedDeserialize := (\<lambda>_. Inr ()),
                 versionedSign := (\<lambda>_ _. Inl (Error ''Cannot sign with non signer key''))\<rparr>"






definition fetchRpcError :: "string \<Rightarrow> rpc_envelope \<Rightarrow> thrown + unit rpc_body response" where
  "fetchRpcError url envelope =
     Inr \<lparr>resp_status = 200, resp_statusText = ''OK'',
          resp_json = Inr \<lparr>rpc_result = None,
                            rpc_error = Some \<lparr>err_code = - 32600,
                                               err_message = ''Invalid params''\<rparr>\<rparr>,
          resp_text = Inl (Error ''body used'')\<rparr>"

definition fetchHttpError :: "string \<Rightarrow> rpc_envelope \<Rightarrow> thrown + unit rpc_body response" where
  "fetchHttpError url envelope =
     Inr \<lparr>resp_status = 500, resp_statusText = ''Internal Server Error'',
          resp_json = Inl (Error ''no body''), resp_text = Inl (Error ''no body'')\<rparr>"

definition fetchUnparseable :: "nat \<Rightarrow> http_request \<Rightarrow> thrown + json response" where
  "fetchUnparseable n request =
     Inr \<lparr>resp_status = 402, resp_statusText = ''Payment Required'',
          resp_json = Inl (Error ''not json''), resp_text = Inr ''not json''\<rparr>"

text \<open>
  The server of \<^verbatim>\<open>x402-kora.test.ts\<close> that asks for a payment: \<open>paymentBody\<close> is
  \<^verbatim>\<open>PAYMENT_BODY_402\<close>, and the parser of \<open>paymentLibrary\<close> reads the text of the
  response as that value.
\<close>

definition paymentBody :: json where
  "paymentBody =
     JObj [(''payment'',
            JObj [(''recipientWallet'', JStr ''recipientWallet123''),
                  (''tokenAccount'', JStr ''recipientTokenAccount''),
                  (''mint'', JStr ''EPjFWdd5AufqSSqeM2qN1xzybapC8G4wEGGkZwyTDt1v''),
                  (''amount'', JNum 1000000),
                  (''amountUSDC'', JNum 1),
                  (''cluster'', JStr ''mainnet-beta''),
                  (''message'', JStr ''Pay to access this resource'')])]"

definition paymentLibrary :: "(unit, unit) library" where
  "paymentLibrary = mockLibrary\<lparr>JSON_parse := (\<lambda>_. Some paymentBody)\<rparr>"

definition fetchPaymentRequired :: "nat \<Rightarrow> http_request \<Rightarrow> thrown + json response" where
  "fetchPaymentRequired n request =
     Inr \<lparr>resp_status = 402, resp_statusText = ''Payment Required'',
          resp_json = Inr paymentBody, resp_text = Inr ''PAYMENT_BODY_402''\<rparr>"

definition fetchUnreachable :: "nat \<Rightarrow> http_request \<Rightarrow> thrown + json response" where
  "fetchUnreachable n request = Inl (Error ''Network error'')"

chapter \<open>Properties\<close>

section \<open>Runs and their logs\<close>

lemma run_bind_Inl [simp]: "run_bind (tr, Inl e) f = (tr, Inl e)"
  by (simp add: run_bind_def)

lemma run_bind_Inr [simp]: "run_bind (tr, Inr x) f = (tr @ fst (f x), snd (f x))"
  by (simp add: run_bind_def split: prod.splits)

lemma run_catch_Inl [simp]: "run_catch (tr, Inl e) h = (tr @ fst (h e), snd (h e))"
  by (simp add: run_catch_def split: prod.splits)

lemma run_catch_Inr [simp]: "run_catch (tr, Inr x) h = (tr, Inr x)"
  by (simp add: run_catch_def)

lemma run_bind_call:
  "run_bind (run_call c outcome) f =
     (case outcome of
        Inl e \<Rightarrow> ([(c, False)], Inl e)
      | Inr x \<Rightarrow> ((c, True) # fst (f x), snd (f x)))"
  by (simp add: run_call_def split: sum.splits)

lemma run_bind_return [simp]: "run_bind (run_return x) f = f x"
  by (simp add: run_return_def)

lemma fst_run_return [simp]: "fst (run_return x) = []"
  by (simp add: run_return_def)

lemma snd_run_return [simp]: "snd (run_return x) = Inr x"
  by (simp add: run_return_def)

text \<open>A property of every logged call is kept by sequencing and by catching.\<close>

lemma log_run_bind:
  assumes "list_all P (fst m)" and "\<And>x. list_all P (fst (f x))"
  shows "list_all P (fst (run_bind m f))"
proof (cases m)
  case (Pair tr out)
  with assms show ?thesis by (cases out) simp_all
qed

lemma log_run_catch:
  assumes "list_all P (fst m)" and "\<And>e. list_all P (fst (h e))"
  shows "list_all P (fst (run_catch m h))"
proof (cases m)
  case (Pair tr out)
  with assms show ?thesis by (cases out) simp_all
qed

lemma log_run_call:
  assumes "P (c, True)" and "P (c, False)"
  shows "list_all P (fst (run_call c outcome))"
  using assms by (cases outcome) (simp_all add: run_call_def)

lemma log_run_return: "list_all P (fst (run_return x))"
  by simp

section \<open>Network resolution\<close>

text \<open>
  Claim C8. Every network designator resolves to one of the three canonical networks
  \<^verbatim>\<open>mainnet-beta\<close>, \<^verbatim>\<open>devnet\<close>, \<^verbatim>\<open>testnet\<close>, and the network is decided by the
  trimmed and lower-cased designator: a name of the production network gives
  \<^verbatim>\<open>mainnet-beta\<close>, a name of the development network \<^verbatim>\<open>devnet\<close>, a name of the test
  network \<^verbatim>\<open>testnet\<close>, and a designator outside the recognised names gives \<^verbatim>\<open>devnet\<close>,
  and so never the production network \<^verbatim>\<open>mainnet-beta\<close>.
\<close>

theorem resolveCluster_canonical:
  "resolveCluster c \<in> {''mainnet-beta'', ''devnet'', ''testnet''} \<and>
   (toLowerCase (trim c) \<in> {''mainnet'', ''mainnet-beta'', ''solana-mainnet''}
      \<longrightarrow> resolveCluster c = ''mainnet-beta'') \<and>
   (toLowerCase (trim c) \<in> {''devnet'', ''solana-devnet''}
      \<longrightarrow> resolveCluster c = ''devnet'') \<and>
   (toLowerCase (trim c) \<in> {''testnet'', ''solana-testnet''}
      \<longrightarrow> resolveCluster c = ''testnet'') \<and>
   (toLowerCase (trim c) \<notin> {''mainnet'', ''mainnet-beta'', ''solana-mainnet'',
        ''devnet'', ''solana-devnet'', ''testnet'', ''solana-testnet''}
      \<longrightarrow> resolveCluster c = ''devnet'' \<and> resolveCluster c \<noteq> ''mainnet-beta'')"
  by (simp add: resolveCluster_def Let_def)

theorem resolveCluster_canonical_witness:
  "toLowerCase (trim '' Mainnet '') = ''mainnet'' \<and>
   resolveCluster '' Mainnet '' = ''mainnet-beta'' \<and>
   toLowerCase (trim ''Solana-Devnet'') = ''solana-devnet'' \<and>
   resolveCluster ''Solana-Devnet'' = ''devnet'' \<and>
   toLowerCase (trim ''TESTNET  '') = ''testnet'' \<and>
   resolveCluster ''TESTNET  '' = ''testnet'' \<and>
   toLowerCase (trim '' Production '') = ''production'' \<and>
   resolveCluster '' Production '' = ''devnet'' \<and>
   resolveCluster '' Production '' \<noteq> ''mainnet-beta''"
  using resolveCluster_canonical [of "'' Mainnet ''"]
    resolveCluster_canonical [of "''Solana-Devnet''"]
    resolveCluster_canonical [of "''TESTNET  ''"]
    resolveCluster_canonical [of "'' Production ''"]
  by (simp add: toLowerCase_def trim_def isUpperCase_def isWhiteSpace_def)

section \<open>The safety limit of a transfer\<close>

lemma balanceQuery_reads:
  "list_all (\<lambda>(c, ok). \<not> mutatesNetwork c) (fst (balanceQuery lib conn address usdcMint))"
  unfolding balanceQuery_def
  by (intro log_run_bind log_run_call log_run_return) simp_all

lemma getUsdcBalance_reads:
  "list_all (\<lambda>(c, ok). \<not> mutatesNetwork c) (fst (getUsdcBalance lib address network rpcUrl))"
  unfolding getUsdcBalance_def getUsdcBalanceDetailed_def
  by (cases "USDC_MINT network")
     (auto intro!: log_run_bind log_run_catch log_run_call log_run_return balanceQuery_reads)

text \<open>
  Claim C1. When the balance query returns the balance \<open>b\<close> and the requested amount
  \<open>a\<close> exceeds half of it, \<^verbatim>\<open>transferUsdc\<close> returns \<^verbatim>\<open>success: false\<close> with the
  safety-limit message, and the calls it has made are those of the balance query, none
  of which is a Kora call, a token-account creation or a transfer. The Kora client
  \<open>koraClient\<close> is arbitrary: present or absent.
\<close>

theorem safety_limit_refuses:
  assumes "getUsdcBalance lib (publicKey kp) network rpcUrl = (tr, Inr b)"
    and "a > (1 / 2) * b"
  shows "transferUsdc lib kp recipientAddress a network rpcUrl koraClient =
           (tr, Inr \<lparr>success = False, txSignature = None,
                     error = Some (''Safety limit: cannot send more than 50% of balance (''
                               @ toFixed lib b 4 @ '' USDC) in one transfer'')\<rparr>)
         \<and> list_all (\<lambda>(c, ok). \<not> mutatesNetwork c) tr"
  using assms getUsdcBalance_reads [of lib "publicKey kp" network rpcUrl]
  by (simp add: transferUsdc_def safetyLimitMessage_def run_return_def)

lemma mock_balance:
  "getUsdcBalance mockLibrary (publicKey mockKeypair) ''mainnet-beta'' None =
     ([(NewConnection (Some ''https://api.mainnet-beta.solana.com''), True),
       (NewPublicKey ''userWalletAddress'', True),
       (NewPublicKey ''EPjFWdd5AufqSSqeM2qN1xzybapC8G4wEGGkZwyTDt1v'', True),
       (GetAssociatedTokenAddress ''EPjFWdd5AufqSSqeM2qN1xzybapC8G4wEGGkZwyTDt1v''
          ''userWalletAddress'', True),
       (GetTokenAccountBalance (Some ''https://api.mainnet-beta.solana.com'') ''mockATA'',
        True)],
      Inr 10)"
  by (simp add: getUsdcBalance_def getUsdcBalanceDetailed_def balanceQuery_def
      run_bind_call USDC_MINT_def RPC_URLS_def rpcEndpoint_def mockLibrary_def mockKeypair_def)

theorem safety_limit_refuses_witness:
  "(6 :: rat) > (1 / 2) * 10 \<and>
   transferUsdc mockLibrary mockKeypair ''dest'' 6 ''mainnet-beta'' None (Some mockKoraClient) =
     ([(NewConnection (Some ''https://api.mainnet-beta.solana.com''), True),
       (NewPublicKey ''userWalletAddress'', True),
       (NewPublicKey ''EPjFWdd5AufqSSqeM2qN1xzybapC8G4wEGGkZwyTDt1v'', True),
       (GetAssociatedTokenAddress ''EPjFWdd5AufqSSqeM2qN1xzybapC8G4wEGGkZwyTDt1v''
          ''userWalletAddress'', True),
       (GetTokenAccountBalance (Some ''https://api.mainnet-beta.solana.com'') ''mockATA'',
        True)],
      Inr \<lparr>success = False, txSignature = None,
            error = Some (''Safety limit: cannot send more than 50% of balance (''
                      @ toFixed mockLibrary 10 4 @ '' USDC) in one transfer'')\<rparr>) \<and>
   transferUsdc mockLibrary mockKeypair ''dest'' 6 ''mainnet-beta'' None None =
   transferUsdc mockLibrary mockKeypair ''dest'' 6 ''mainnet-beta'' None (Some mockKoraClient)"
proof -
  have limit: "(6 :: rat) > (1 / 2) * 10" by simp
  show ?thesis
    using safety_limit_refuses [OF mock_balance limit, of "''dest''" "Some mockKoraClient"]
      safety_limit_refuses [OF mock_balance limit, of "''dest''" None]
    by simp
qed

section \<open>A balance lookup that fails\<close>




section \<open>The order of the calls on the fee-payer path\<close>

text \<open>
  What a signing that returns has done: either the versioned decoding, signing and
  serialising have all returned, or one of the three has thrown and the legacy
  decoding, signing and serialising have all returned. In both cases the result is
  the base64 text of the serialised transaction.
\<close>

lemma partiallySign_returns:
  assumes "partiallySign lib kp b = (tr, Inr p)"
  shows "(\<exists>v s out.
            versionedDeserialize lib b = Inr v \<and> versionedSign lib v kp = Inr s \<and>
            versionedSerialize lib s = Inr out \<and> p = base64Encode out \<and>
            tr = [(VersionedDeserialize b, True), (VersionedSign, True),
                  (VersionedSerialize, True)])
       \<or> (\<exists>l s out attempt.
            legacyFrom lib b = Inr l \<and> legacyPartialSign lib l kp = Inr s \<and>
            legacySerialize lib s False = Inr out \<and> p = base64Encode out \<and>
            tr = attempt @ [(LegacyFrom b, True), (LegacyPartialSign, True),
                            (LegacySerialize False, True)] \<and>
            ((\<exists>e. versionedDeserialize lib b = Inl e \<and>
                  attempt = [(VersionedDeserialize b, False)])
           \<or> (\<exists>v e. versionedDeserialize lib b = Inr v \<and> versionedSign lib v kp = Inl e \<and>
                  attempt = [(VersionedDeserialize b, True), (VersionedSign, False)])
           \<or> (\<exists>v s e. versionedDeserialize lib b = Inr v \<and> versionedSign lib v kp = Inr s \<and>
                  versionedSerialize lib s = Inl e \<and>
                  attempt = [(VersionedDeserialize b, True), (VersionedSign, True),
                             (VersionedSerialize, False)])))"
  using assms
  by (auto simp: partiallySign_def run_bind_call run_catch_def split: sum.splits prod.splits)

text \<open>
  Claim C2, as the code has it. The \<^verbatim>\<open>catch\<close> of the versioned branch covers the
  signing and the serialising as well as the decoding. With a library whose versioned
  decoding returns and whose versioned signing throws, the transfer succeeds, and both
  the versioned and the legacy decoding of the one transaction have returned: the
  legacy decoding is tried although the versioned decoding has not thrown.
\<close>

theorem both_decodings_return_counterexample:
  "transferUsdcViaKora signRejectingLibrary mockKoraClient mockKeypair ''dest'' 1
      ''mainnet-beta'' =
     ([(KoraTransferTransaction
          \<lparr>amount = 1000000, token = ''EPjFWdd5AufqSSqeM2qN1xzybapC8G4wEGGkZwyTDt1v'',
           source = ''userWalletAddress'', destination = ''dest''\<rparr>, True),
       (VersionedDeserialize [107, 111, 114, 97, 84, 120], True),
       (VersionedSign, False),
       (LegacyFrom [107, 111, 114, 97, 84, 120], True),
       (LegacyPartialSign, True),
       (LegacySerialize False, True),
       (KoraSignAndSendTransaction ''c2VyaWFsaXplZFR4'', True)],
      Inr \<lparr>success = True, txSignature = Some ''koraTxSig123'', error = None\<rparr>)"
  by (simp add: transferUsdcViaKora_def koraTransferSteps_def partiallySign_def
      run_bind_call USDC_MINT_def signRejectingLibrary_def mockLibrary_def mockKeypair_def
      mockKoraClient_def base64Char_def base64Alphabet_def)

text \<open>
  Claim C2, amended. A run of \<^verbatim>\<open>transferUsdcViaKora\<close> that succeeds consists of the
  remote build (\<^verbatim>\<open>transferTransaction\<close>) of the request for the amount in base units,
  the mint of the network, the sender and the recipient; then the signing of the bytes
  that the build has returned; then the remote finalisation
  (\<^verbatim>\<open>signAndSendTransaction\<close>) of the signed transaction, whose signature is the
  result: in that order, the build and the finalisation once each. The signing is the
  versioned decoding, signing and serialising, all returning and no legacy call made;
  or else a versioned attempt in which the decoding, the signing or the serialising has
  thrown, followed by the legacy decoding, signing and serialising of the same bytes.
  The versioned decoding is always tried first, and the legacy decoding is tried only
  after a step of the versioned attempt has thrown.
\<close>

theorem kora_path_call_order:
  assumes "transferUsdcViaKora lib kora kp recipientAddress a network = (tr, Inr res)"
    and "success res"
  shows "\<exists>usdcMint built b p sent signing.
           USDC_MINT network = Some usdcMint \<and>
           transferTransaction kora
             \<lparr>amount = \<lfloor>numberTimes lib a 1000000\<rfloor>, token = usdcMint,
              source = publicKey kp, destination = recipientAddress\<rparr> = Inr built \<and>
           b = bufferFromBase64 lib (tt_transaction built) \<and>
           signAndSendTransaction kora p = Inr sent \<and>
           res = \<lparr>success = True, txSignature = Some (sas_signature sent), error = None\<rparr> \<and>
           tr = (KoraTransferTransaction
                   \<lparr>amount = \<lfloor>numberTimes lib a 1000000\<rfloor>, token = usdcMint,
                    source = publicKey kp, destination = recipientAddress\<rparr>, True)
                # signing @ [(KoraSignAndSendTransaction p, True)] \<and>
           ((\<exists>v s out.
               versionedDeserialize lib b = Inr v \<and> versionedSign lib v kp = Inr s \<and>
               versionedSerialize lib s = Inr out \<and> p = base64Encode out \<and>
               signing = [(VersionedDeserialize b, True), (VersionedSign, True),
                          (VersionedSerialize, True)])
          \<or> (\<exists>l s out attempt.
               legacyFrom lib b = Inr l \<and> legacyPartialSign lib l kp = Inr s \<and>
               legacySerialize lib s False = Inr out \<and> p = base64Encode out \<and>
               signing = attempt @ [(LegacyFrom b, True), (LegacyPartialSign, True),
                                    (LegacySerialize False, True)] \<and>
               ((\<exists>e. versionedDeserialize lib b = Inl e \<and>
                     attempt = [(VersionedDeserialize b, False)])
              \<or> (\<exists>v e. versionedDeserialize lib b = Inr v \<and>
                     versionedSign lib v kp = Inl e \<and>
                     attempt = [(VersionedDeserialize b, True), (VersionedSign, False)])
              \<or> (\<exists>v s e. versionedDeserialize lib b = Inr v \<and>
                     versionedSign lib v kp = Inr s \<and> versionedSerialize lib s = Inl e \<and>
                     attempt = [(VersionedDeserialize b, True), (VersionedSign, True),
                                (VersionedSerialize, False)]))))"
proof (cases "USDC_MINT network")
  case None
  with assms show ?thesis by (auto simp: transferUsdcViaKora_def run_return_def)
next
  case (Some usdcMint)
  let ?request = "\<lparr>amount = \<lfloor>numberTimes lib a 1000000\<rfloor>, token = usdcMint,
                    source = publicKey kp, destination = recipientAddress\<rparr>"
  show ?thesis
  proof (cases "transferTransaction kora ?request")
    case (Inl e)
    with assms Some show ?thesis
      by (auto simp: transferUsdcViaKora_def koraTransferSteps_def run_bind_call run_return_def)
  next
    case (Inr built)
    let ?b = "bufferFromBase64 lib (tt_transaction built)"
    obtain tr1 out1 where ps: "partiallySign lib kp ?b = (tr1, out1)"
      by (cases "partiallySign lib kp ?b")
    show ?thesis
    proof (cases out1)
      case (Inl e)
      with assms Some Inr ps show ?thesis
        by (auto simp: transferUsdcViaKora_def koraTransferSteps_def run_bind_call
            run_return_def)
    next
      case p: (Inr p)
      show ?thesis
      proof (cases "signAndSendTransaction kora p")
        case (Inl e)
        with assms Some Inr ps p show ?thesis
          by (auto simp: transferUsdcViaKora_def koraTransferSteps_def run_bind_call
              run_return_def)
      next
        case sent: (Inr sent)
        from assms Some Inr ps p sent
        have tr: "tr = (KoraTransferTransaction ?request, True) # tr1
                        @ [(KoraSignAndSendTransaction p, True)]"
          and res: "res = \<lparr>success = True, txSignature = Some (sas_signature sent),
                           error = None\<rparr>"
          by (auto simp: transferUsdcViaKora_def koraTransferSteps_def run_bind_call
              run_return_def)
        from partiallySign_returns [OF ps [unfolded p]] Some Inr sent tr res
        show ?thesis
          by (intro exI [of _ usdcMint] exI [of _ built] exI [of _ ?b] exI [of _ p]
              exI [of _ sent] exI [of _ tr1]) simp
      qed
    qed
  qed
qed

lemma mock_kora_run:
  "transferUsdcViaKora mockLibrary mockKoraClient mockKeypair ''dest'' 1 ''mainnet-beta'' =
     ([(KoraTransferTransaction
          \<lparr>amount = 1000000, token = ''EPjFWdd5AufqSSqeM2qN1xzybapC8G4wEGGkZwyTDt1v'',
           source = ''userWalletAddress'', destination = ''dest''\<rparr>, True),
       (VersionedDeserialize [107, 111, 114, 97, 84, 120], False),
       (LegacyFrom [107, 111, 114, 97, 84, 120], True),
       (LegacyPartialSign, True),
       (LegacySerialize False, True),
       (KoraSignAndSendTransaction ''c2VyaWFsaXplZFR4'', True)],
      Inr \<lparr>success = True, txSignature = Some ''koraTxSig123'', error = None\<rparr>)"
  by (simp add: transferUsdcViaKora_def koraTransferSteps_def partiallySign_def
      run_bind_call USDC_MINT_def mockLibrary_def mockKeypair_def mockKoraClient_def
      base64Char_def base64Alphabet_def)

theorem kora_path_call_order_witness:
  "success \<lparr>success = True, txSignature = Some ''koraTxSig123'', error = None\<rparr> \<and>
   transferUsdcViaKora mockLibrary mockKoraClient mockKeypair ''dest'' 1 ''mainnet-beta'' =
     ([(KoraTransferTransaction
          \<lparr>amount = 1000000, token = ''EPjFWdd5AufqSSqeM2qN1xzybapC8G4wEGGkZwyTDt1v'',
           source = ''userWalletAddress'', destination = ''dest''\<rparr>, True),
       (VersionedDeserialize [107, 111, 114, 97, 84, 120], False),
       (LegacyFrom [107, 111, 114, 97, 84, 120], True),
       (LegacyPartialSign, True),
       (LegacySerialize False, True),
       (KoraSignAndSendTransaction ''c2VyaWFsaXplZFR4'', True)],
      Inr \<lparr>success = True, txSignature = Some ''koraTxSig123'', error = None\<rparr>) \<and>
   versionedDeserialize mockLibrary [107, 111, 114, 97, 84, 120]
     = Inl (Error ''not a versioned tx'') \<and>
   base64Encode [115, 101, 114, 105, 97, 108, 105, 122, 101, 100, 84, 120]
     = ''c2VyaWFsaXplZFR4''"
proof -
  have ok: "success \<lparr>success = True, txSignature = Some ''koraTxSig123'', error = None\<rparr>"
    by simp
  have thrown: "versionedDeserialize mockLibrary [107, 111, 114, 97, 84, 120]
     = Inl (Error ''not a versioned tx'')"
    by (simp add: mockLibrary_def)
  have encoded: "base64Encode [115, 101, 114, 105, 97, 108, 105, 122, 101, 100, 84, 120]
     = ''c2VyaWFsaXplZFR4''"
    by (simp add: base64Char_def base64Alphabet_def)
  show ?thesis
    using kora_path_call_order [OF mock_kora_run ok] ok mock_kora_run thrown encoded
    by blast
qed

text \<open>
  The fee-payer path of the 402 flow has the same order, with \<^verbatim>\<open>signTransaction\<close>
  as the finalisation and the rounded amount of the requirements.
\<close>

lemma x402_kora_path_call_order:
  assumes "buildPaymentTransactionViaKora lib kora kp requirements = (tr, Inr signedTx)"
  shows "\<exists>built p signed signing.
           transferTransaction kora
             \<lparr>amount = mathRound (pr_amount requirements), token = pr_mint requirements,
              source = publicKey kp, destination = pr_recipientWallet requirements\<rparr>
             = Inr built \<and>
           partiallySign lib kp (bufferFromBase64 lib (tt_transaction built))
             = (signing, Inr p) \<and>
           signTransaction kora p = Inr signed \<and>
           signedTx = st_signed_transaction signed \<and>
           tr = (KoraTransferTransaction
                   \<lparr>amount = mathRound (pr_amount requirements),
                    token = pr_mint requirements, source = publicKey kp,
                    destination = pr_recipientWallet requirements\<rparr>, True)
                # signing @ [(KoraSignTransaction p, True)]"
proof -
  let ?request = "\<lparr>amount = mathRound (pr_amount requirements),
                     token = pr_mint requirements, source = publicKey kp,
                     destination = pr_recipientWallet requirements\<rparr>"
  show ?thesis
  proof (cases "transferTransaction kora ?request")
    case (Inl e)
    with assms show ?thesis
      by (auto simp: buildPaymentTransactionViaKora_def run_bind_call)
  next
    case (Inr built)
    let ?b = "bufferFromBase64 lib (tt_transaction built)"
    obtain tr1 out1 where ps: "partiallySign lib kp ?b = (tr1, out1)"
      by (cases "partiallySign lib kp ?b")
    show ?thesis
    proof (cases out1)
      case (Inl e)
      with assms Inr ps show ?thesis
        by (auto simp: buildPaymentTransactionViaKora_def run_bind_call)
    next
      case p: (Inr p)
      show ?thesis
      proof (cases "signTransaction kora p")
        case (Inl e)
        with assms Inr ps p show ?thesis
          by (auto simp: buildPaymentTransactionViaKora_def run_bind_call)
      next
        case sent: (Inr sent)
        from assms Inr ps p sent show ?thesis
          by (auto simp: buildPaymentTransactionViaKora_def run_bind_call run_return_def)
      qed
    qed
  qed
qed

section \<open>Failures of the transfer steps\<close>

text \<open>
  An exception of the versioned attempt is caught by the legacy branch; an exception
  of the legacy branch leaves the signing.
\<close>

lemma partiallySign_versioned:
  assumes "versionedDeserialize lib b = Inr v" and "versionedSign lib v kp = Inr s"
    and "versionedSerialize lib s = Inr out"
  shows "partiallySign lib kp b =
           ([(VersionedDeserialize b, True), (VersionedSign, True), (VersionedSerialize, True)],
            Inr (base64Encode out))"
  using assms by (simp add: partiallySign_def run_bind_call run_return_def)

lemma partiallySign_legacy:
  assumes "\<not> (\<exists>v s out. versionedDeserialize lib b = Inr v \<and> versionedSign lib v kp = Inr s \<and>
                versionedSerialize lib s = Inr out)"
  shows "snd (partiallySign lib kp b) =
           (case legacyFrom lib b of
              Inl e \<Rightarrow> Inl e
            | Inr l \<Rightarrow>
                (case legacyPartialSign lib l kp of
                   Inl e \<Rightarrow> Inl e
                 | Inr s \<Rightarrow>
                     (case legacySerialize lib s False of
                        Inl e \<Rightarrow> Inl e
                      | Inr out \<Rightarrow> Inr (base64Encode out))))"
  using assms
  by (auto simp: partiallySign_def run_bind_call run_catch_def run_return_def
      split: sum.splits prod.splits)

lemma mock_balance_of:
  assumes "newConnection lib = newConnection mockLibrary"
    and "newPublicKey lib = newPublicKey mockLibrary"
    and "getAssociatedTokenAddress lib = getAssociatedTokenAddress mockLibrary"
    and "getTokenAccountBalance lib = getTokenAccountBalance mockLibrary"
  shows "getUsdcBalance lib (publicKey mockKeypair) ''mainnet-beta'' None =
     ([(NewConnection (Some ''https://api.mainnet-beta.solana.com''), True),
       (NewPublicKey ''userWalletAddress'', True),
       (NewPublicKey ''EPjFWdd5AufqSSqeM2qN1xzybapC8G4wEGGkZwyTDt1v'', True),
       (GetAssociatedTokenAddress ''EPjFWdd5AufqSSqeM2qN1xzybapC8G4wEGGkZwyTDt1v''
          ''userWalletAddress'', True),
       (GetTokenAccountBalance (Some ''https://api.mainnet-beta.solana.com'') ''mockATA'',
        True)],
      Inr 10)"
  by (simp add: assms getUsdcBalance_def getUsdcBalanceDetailed_def balanceQuery_def
      run_bind_call USDC_MINT_def RPC_URLS_def rpcEndpoint_def mockLibrary_def mockKeypair_def)

text \<open>
  Claim C3, amended. When the balance allows the transfer on a supported network, an
  exception thrown by a step of the transfer is returned as \<^verbatim>\<open>success: false\<close>. On
  the fee-payer path the steps are the remote build, the legacy decoding, signing and
  serialising (reached when the versioned attempt has thrown, whose own exception is
  dropped), and the remote finalisation of the transaction signed either way; the
  error returned is \<^verbatim>\<open>Kora transfer failed: \<close> followed by the text of the exception.
  On the direct path, once the connection and the two public keys are constructed, the
  steps are the two token-account calls and the transfer; the error returned is the
  text of the exception alone, without a context prefix.
\<close>

theorem transfer_failures_rewrapped:
  assumes "getUsdcBalance lib (publicKey kp) network rpcUrl = (tr0, Inr bal)"
    and "\<not> a > bal * (1 / 2)"
    and "USDC_MINT network = Some usdcMint"
    and "(\<exists>kora. koraClient = Some kora \<and> context = ''Kora transfer failed: '' \<and>
            (transferTransaction kora
               \<lparr>amount = \<lfloor>numberTimes lib a 1000000\<rfloor>, token = usdcMint,
                source = publicKey kp, destination = recipientAddress\<rparr> = Inl err
           \<or> (\<exists>built b.
                 transferTransaction kora
                   \<lparr>amount = \<lfloor>numberTimes lib a 1000000\<rfloor>, token = usdcMint,
                    source = publicKey kp, destination = recipientAddress\<rparr> = Inr built \<and>
                 b = bufferFromBase64 lib (tt_transaction built) \<and>
                 ((\<exists>v s out.
                     versionedDeserialize lib b = Inr v \<and> versionedSign lib v kp = Inr s \<and>
                     versionedSerialize lib s = Inr out \<and>
                     signAndSendTransaction kora (base64Encode out) = Inl err)
                \<or> (\<not> (\<exists>v s out.
                          versionedDeserialize lib b = Inr v \<and>
                          versionedSign lib v kp = Inr s \<and>
                          versionedSerialize lib s = Inr out) \<and>
                     (legacyFrom lib b = Inl err
                    \<or> (\<exists>l. legacyFrom lib b = Inr l \<and>
                          (legacyPartialSign lib l kp = Inl err
                         \<or> (\<exists>s. legacyPartialSign lib l kp = Inr s \<and>
                               (legacySerialize lib s False = Inl err
                              \<or> (\<exists>out. legacySerialize lib s False = Inr out \<and>
                                    signAndSendTransaction kora (base64Encode out)
                                      = Inl err)))))))))))
       \<or> (koraClient = None \<and> context = [] \<and>
            (\<exists>conn mint recipient.
               newConnection lib (rpcEndpoint rpcUrl network) = Inr conn \<and>
               newPublicKey lib usdcMint = Inr mint \<and>
               newPublicKey lib recipientAddress = Inr recipient \<and>
               (getOrCreateAssociatedTokenAccount lib conn kp mint (publicKey kp) = Inl err
              \<or> (\<exists>senderATA.
                    getOrCreateAssociatedTokenAccount lib conn kp mint (publicKey kp)
                      = Inr senderATA \<and>
                    (getOrCreateAssociatedTokenAccount lib conn kp mint recipient = Inl err
                   \<or> (\<exists>recipientATA.
                         getOrCreateAssociatedTokenAccount lib conn kp mint recipient
                           = Inr recipientATA \<and>
                         splTransfer lib conn kp senderATA recipientATA (publicKey kp)
                           \<lfloor>numberTimes lib a 1000000\<rfloor> = Inl err))))))"
  shows "snd (transferUsdc lib kp recipientAddress a network rpcUrl koraClient) =
           Inr \<lparr>success = False, txSignature = None,
                error = Some (context @ errorText err)\<rparr>"
proof -
  let ?request = "\<lparr>amount = \<lfloor>numberTimes lib a 1000000\<rfloor>, token = usdcMint,
                    source = publicKey kp, destination = recipientAddress\<rparr>"
  from assms(4) show ?thesis
  proof (elim disjE exE conjE)
    fix kora
    assume "koraClient = Some kora" "context = ''Kora transfer failed: ''"
      "transferTransaction kora ?request = Inl err"
    with assms(1-3) show ?thesis
      by (simp add: transferUsdc_def transferUsdcViaKora_def koraTransferSteps_def
          run_bind_call run_return_def)
  next
    fix kora built b v s out
    assume "koraClient = Some kora" "context = ''Kora transfer failed: ''"
      "transferTransaction kora ?request = Inr built"
      "b = bufferFromBase64 lib (tt_transaction built)"
      "versionedDeserialize lib b = Inr v" "versionedSign lib v kp = Inr s"
      "versionedSerialize lib s = Inr out"
      "signAndSendTransaction kora (base64Encode out) = Inl err"
    with assms(1-3) partiallySign_versioned [of lib b v kp s out] show ?thesis
      by (simp add: transferUsdc_def transferUsdcViaKora_def koraTransferSteps_def
          run_bind_call run_return_def)
  next
    fix kora built b
    assume "koraClient = Some kora" "context = ''Kora transfer failed: ''"
      "transferTransaction kora ?request = Inr built"
      "b = bufferFromBase64 lib (tt_transaction built)"
      "\<not> (\<exists>v s out. versionedDeserialize lib b = Inr v \<and> versionedSign lib v kp = Inr s \<and>
             versionedSerialize lib s = Inr out)"
      "legacyFrom lib b = Inl err"
    with assms(1-3) partiallySign_legacy [of lib b kp] show ?thesis
      by (cases "partiallySign lib kp b")
         (simp add: transferUsdc_def transferUsdcViaKora_def koraTransferSteps_def
          run_bind_call run_return_def)
  next
    fix kora built b l
    assume "koraClient = Some kora" "context = ''Kora transfer failed: ''"
      "transferTransaction kora ?request = Inr built"
      "b = bufferFromBase64 lib (tt_transaction built)"
      "\<not> (\<exists>v s out. versionedDeserialize lib b = Inr v \<and> versionedSign lib v kp = Inr s \<and>
             versionedSerialize lib s = Inr out)"
      "legacyFrom lib b = Inr l" "legacyPartialSign lib l kp = Inl err"
    with assms(1-3) partiallySign_legacy [of lib b kp] show ?thesis
      by (cases "partiallySign lib kp b")
         (simp add: transferUsdc_def transferUsdcViaKora_def koraTransferSteps_def
          run_bind_call run_return_def)
  next
    fix kora built b l s
    assume "koraClient = Some kora" "context = ''Kora transfer failed: ''"
      "transferTransaction kora ?request = Inr built"
      "b = bufferFromBase64 lib (tt_transaction built)"
      "\<not> (\<exists>v s out. versionedDeserialize lib b = Inr v \<and> versionedSign lib v kp = Inr s \<and>
             versionedSerialize lib s = Inr out)"
      "legacyFrom lib b = Inr l" "legacyPartialSign lib l kp = Inr s"
      "legacySerialize lib s False = Inl err"
    with assms(1-3) partiallySign_legacy [of lib b kp] show ?thesis
      by (cases "partiallySign lib kp b")
         (simp add: transferUsdc_def transferUsdcViaKora_def koraTransferSteps_def
          run_bind_call run_return_def)
  next
    fix kora built b l s out
    assume "koraClient = Some kora" "context = ''Kora transfer failed: ''"
      "transferTransaction kora ?request = Inr built"
      "b = bufferFromBase64 lib (tt_transaction built)"
      "\<not> (\<exists>v s out. versionedDeserialize lib b = Inr v \<and> versionedSign lib v kp = Inr s \<and>
             versionedSerialize lib s = Inr out)"
      "legacyFrom lib b = Inr l" "legacyPartialSign lib l kp = Inr s"
      "legacySerialize lib s False = Inr out"
      "signAndSendTransaction kora (base64Encode out) = Inl err"
    with assms(1-3) partiallySign_legacy [of lib b kp] show ?thesis
      by (cases "partiallySign lib kp b")
         (simp add: transferUsdc_def transferUsdcViaKora_def koraTransferSteps_def
          run_bind_call run_return_def)
  next
    fix conn mint recipient
    assume "koraClient = None" "context = []"
      "newConnection lib (rpcEndpoint rpcUrl network) = Inr conn"
      "newPublicKey lib usdcMint = Inr mint" "newPublicKey lib recipientAddress = Inr recipient"
      "getOrCreateAssociatedTokenAccount lib conn kp mint (publicKey kp) = Inl err"
    with assms(1-3) show ?thesis
      by (simp add: transferUsdc_def directTransferSteps_def run_bind_call run_return_def)
  next
    fix conn mint recipient senderATA
    assume "koraClient = None" "context = []"
      "newConnection lib (rpcEndpoint rpcUrl network) = Inr conn"
      "newPublicKey lib usdcMint = Inr mint" "newPublicKey lib recipientAddress = Inr recipient"
      "getOrCreateAssociatedTokenAccount lib conn kp mint (publicKey kp) = Inr senderATA"
      "getOrCreateAssociatedTokenAccount lib conn kp mint recipient = Inl err"
    with assms(1-3) show ?thesis
      by (simp add: transferUsdc_def directTransferSteps_def run_bind_call run_return_def)
  next
    fix conn mint recipient senderATA recipientATA
    assume "koraClient = None" "context = []"
      "newConnection lib (rpcEndpoint rpcUrl network) = Inr conn"
      "newPublicKey lib usdcMint = Inr mint" "newPublicKey lib recipientAddress = Inr recipient"
      "getOrCreateAssociatedTokenAccount lib conn kp mint (publicKey kp) = Inr senderATA"
      "getOrCreateAssociatedTokenAccount lib conn kp mint recipient = Inr recipientATA"
      "splTransfer lib conn kp senderATA recipientATA (publicKey kp)
         \<lfloor>numberTimes lib a 1000000\<rfloor> = Inl err"
    with assms(1-3) show ?thesis
      by (simp add: transferUsdc_def directTransferSteps_def run_bind_call run_return_def)
  qed
qed

lemma broke_balance:
  "getUsdcBalance brokeLibrary (publicKey mockKeypair) ''mainnet-beta'' None =
     ([(NewConnection (Some ''https://api.mainnet-beta.solana.com''), True),
       (NewPublicKey ''userWalletAddress'', True),
       (NewPublicKey ''EPjFWdd5AufqSSqeM2qN1xzybapC8G4wEGGkZwyTDt1v'', True),
       (GetAssociatedTokenAddress ''EPjFWdd5AufqSSqeM2qN1xzybapC8G4wEGGkZwyTDt1v''
          ''userWalletAddress'', True),
       (GetTokenAccountBalance (Some ''https://api.mainnet-beta.solana.com'') ''mockATA'',
        True)],
      Inr 10)"
  by (rule mock_balance_of) (simp_all add: brokeLibrary_def)

theorem transfer_failures_rewrapped_witness:
  "\<not> (1 :: rat) > 10 * (1 / 2) \<and>
   snd (transferUsdc mockLibrary mockKeypair ''dest'' 1 ''mainnet-beta'' None
          (Some downKoraClient)) =
     Inr \<lparr>success = False, txSignature = None,
          error = Some ''Kora transfer failed: Kora server down''\<rparr> \<and>
   snd (transferUsdc unsignableLibrary mockKeypair ''dest'' 1 ''mainnet-beta'' None
          (Some mockKoraClient)) =
     Inr \<lparr>success = False, txSignature = None,
          error = Some ''Kora transfer failed: unknown signer''\<rparr> \<and>
   snd (transferUsdc mockLibrary mockKeypair ''dest'' 1 ''mainnet-beta'' None
          (Some deafKoraClient)) =
     Inr \<lparr>success = False, txSignature = None,
          error = Some ''Kora transfer failed: blockhash expired''\<rparr> \<and>
   snd (transferUsdc brokeLibrary mockKeypair ''dest'' 1 ''mainnet-beta'' None None) =
     Inr \<lparr>success = False, txSignature = None, error = Some ''insufficient lamports''\<rparr> \<and>
   snd (transferUsdc frozenLibrary mockKeypair ''dest'' 1 ''mainnet-beta'' None None) =
     Inr \<lparr>success = False, txSignature = None, error = Some ''account frozen''\<rparr>"
proof -
  have mint: "USDC_MINT ''mainnet-beta'' = Some ''EPjFWdd5AufqSSqeM2qN1xzybapC8G4wEGGkZwyTDt1v''"
    by (simp add: USDC_MINT_def)
  have within: "\<not> (1 :: rat) > 10 * (1 / 2)" by simp
  have bal: "getUsdcBalance mockLibrary (publicKey mockKeypair) ''mainnet-beta'' None =
     ([(NewConnection (Some ''https://api.mainnet-beta.solana.com''), True),
       (NewPublicKey ''userWalletAddress'', True),
       (NewPublicKey ''EPjFWdd5AufqSSqeM2qN1xzybapC8G4wEGGkZwyTDt1v'', True),
       (GetAssociatedTokenAddress ''EPjFWdd5AufqSSqeM2qN1xzybapC8G4wEGGkZwyTDt1v''
          ''userWalletAddress'', True),
       (GetTokenAccountBalance (Some ''https://api.mainnet-beta.solana.com'') ''mockATA'',
        True)],
      Inr 10)"
    by (rule mock_balance_of) simp_all
  have unsignable: "getUsdcBalance unsignableLibrary (publicKey mockKeypair) ''mainnet-beta'' None =
     ([(NewConnection (Some ''https://api.mainnet-beta.solana.com''), True),
       (NewPublicKey ''userWalletAddress'', True),
       (NewPublicKey ''EPjFWdd5AufqSSqeM2qN1xzybapC8G4wEGGkZwyTDt1v'', True),
       (GetAssociatedTokenAddress ''EPjFWdd5AufqSSqeM2qN1xzybapC8G4wEGGkZwyTDt1v''
          ''userWalletAddress'', True),
       (GetTokenAccountBalance (Some ''https://api.mainnet-beta.solana.com'') ''mockATA'',
        True)],
      Inr 10)"
    by (rule mock_balance_of) (simp_all add: unsignableLibrary_def)
  have frozen: "getUsdcBalance frozenLibrary (publicKey mockKeypair) ''mainnet-beta'' None =
     ([(NewConnection (Some ''https://api.mainnet-beta.solana.com''), True),
       (NewPublicKey ''userWalletAddress'', True),
       (NewPublicKey ''EPjFWdd5AufqSSqeM2qN1xzybapC8G4wEGGkZwyTDt1v'', True),
       (GetAssociatedTokenAddress ''EPjFWdd5AufqSSqeM2qN1xzybapC8G4wEGGkZwyTDt1v''
          ''userWalletAddress'', True),
       (GetTokenAccountBalance (Some ''https://api.mainnet-beta.solana.com'') ''mockATA'',
        True)],
      Inr 10)"
    by (rule mock_balance_of) (simp_all add: frozenLibrary_def)
  have build: "snd (transferUsdc mockLibrary mockKeypair ''dest'' 1 ''mainnet-beta'' None
          (Some downKoraClient)) =
     Inr \<lparr>success = False, txSignature = None,
          error = Some (''Kora transfer failed: '' @ errorText (Error ''Kora server down''))\<rparr>"
    by (rule transfer_failures_rewrapped [OF bal within mint])
       (simp add: downKoraClient_def mockKoraClient_def)
  have sign: "snd (transferUsdc unsignableLibrary mockKeypair ''dest'' 1 ''mainnet-beta'' None
          (Some mockKoraClient)) =
     Inr \<lparr>success = False, txSignature = None,
          error = Some (''Kora transfer failed: '' @ errorText (Error ''unknown signer''))\<rparr>"
    by (rule transfer_failures_rewrapped [OF unsignable within mint])
       (simp add: unsignableLibrary_def mockLibrary_def mockKoraClient_def)
  have finalise: "snd (transferUsdc mockLibrary mockKeypair ''dest'' 1 ''mainnet-beta'' None
          (Some deafKoraClient)) =
     Inr \<lparr>success = False, txSignature = None,
          error = Some (''Kora transfer failed: '' @ errorText (Error ''blockhash expired''))\<rparr>"
    by (rule transfer_failures_rewrapped [OF bal within mint])
       (simp add: deafKoraClient_def mockLibrary_def mockKoraClient_def)
  have account: "snd (transferUsdc brokeLibrary mockKeypair ''dest'' 1 ''mainnet-beta'' None
          None) =
     Inr \<lparr>success = False, txSignature = None,
          error = Some ([] @ errorText (Error ''insufficient lamports''))\<rparr>"
    by (rule transfer_failures_rewrapped [OF broke_balance within mint])
       (simp add: brokeLibrary_def mockLibrary_def rpcEndpoint_def RPC_URLS_def)
  have transfer: "snd (transferUsdc frozenLibrary mockKeypair ''dest'' 1 ''mainnet-beta'' None
          None) =
     Inr \<lparr>success = False, txSignature = None,
          error = Some ([] @ errorText (Error ''account frozen''))\<rparr>"
    by (rule transfer_failures_rewrapped [OF frozen within mint])
       (simp add: frozenLibrary_def mockLibrary_def rpcEndpoint_def RPC_URLS_def)
  show ?thesis
    using build sign finalise account transfer within
    by (simp add: Error_def errorText_def)
qed

text \<open>
  Claim C3 as the specification words it fails on the direct path: the token-account
  call throws \<^verbatim>\<open>insufficient lamports\<close>, and the error returned is that text, which
  has no \<^verbatim>\<open><Context> failed: \<close> in front of it.
\<close>

theorem direct_failure_without_context_counterexample:
  "transferUsdc brokeLibrary mockKeypair ''dest'' 1 ''mainnet-beta'' None None =
     ([(NewConnection (Some ''https://api.mainnet-beta.solana.com''), True),
       (NewPublicKey ''userWalletAddress'', True),
       (NewPublicKey ''EPjFWdd5AufqSSqeM2qN1xzybapC8G4wEGGkZwyTDt1v'', True),
       (GetAssociatedTokenAddress ''EPjFWdd5AufqSSqeM2qN1xzybapC8G4wEGGkZwyTDt1v''
          ''userWalletAddress'', True),
       (GetTokenAccountBalance (Some ''https://api.mainnet-beta.solana.com'') ''mockATA'',
        True),
       (NewConnection (Some ''https://api.mainnet-beta.solana.com''), True),
       (NewPublicKey ''EPjFWdd5AufqSSqeM2qN1xzybapC8G4wEGGkZwyTDt1v'', True),
       (NewPublicKey ''dest'', True),
       (GetOrCreateAssociatedTokenAccount (Some ''https://api.mainnet-beta.solana.com'')
          ''EPjFWdd5AufqSSqeM2qN1xzybapC8G4wEGGkZwyTDt1v'' ''userWalletAddress'', False)],
      Inr \<lparr>success = False, txSignature = None, error = Some ''insufficient lamports''\<rparr>)
   \<and> \<not> includesStr ''insufficient lamports'' '' failed: ''"
  unfolding transferUsdc_def broke_balance
  by (simp add: directTransferSteps_def run_bind_call
      USDC_MINT_def RPC_URLS_def rpcEndpoint_def brokeLibrary_def mockLibrary_def
      mockKeypair_def Error_def errorText_def)

section \<open>Errors of the Kora client\<close>

lemma startsWith_append [simp]: "startsWith (ys @ zs) ys"
  by (induction ys) simp_all

lemma includesStr_prefix: "includesStr (ys @ zs) ys"
  by (cases "ys @ zs") (use startsWith_append [of ys zs] in auto)

lemma includesStr_append: "includesStr (xs @ ys @ zs) ys"
proof (induction xs)
  case Nil
  show ?case by (simp add: includesStr_prefix)
next
  case (Cons x xs)
  then show ?case by simp
qed

text \<open>
  Claim C4. When \<^verbatim>\<open>fetch\<close> resolves with a response: if its status is 2xx and its
  JSON body carries an error object, \<^verbatim>\<open>rpc\<close> throws an \<^verbatim>\<open>Error\<close> whose message is
  exactly \<^verbatim>\<open>Kora RPC error [<code>]: <message>\<close>; if its status is not 2xx, \<^verbatim>\<open>rpc\<close>
  throws an \<^verbatim>\<open>Error\<close> whose message contains \<^verbatim>\<open>HTTP error: \<close> and the status number.
\<close>

theorem rpc_errors:
  fixes fetch :: "string \<Rightarrow> rpc_envelope \<Rightarrow> thrown + 'r rpc_body response"
  assumes "fetch (cfg_rpcUrl this)
             \<lparr>env_jsonrpc = ''2.0'', env_id = 1, env_method = method, env_params = params\<rparr>
           = Inr response"
  shows "(200 \<le> resp_status response \<and> resp_status response \<le> 299 \<and>
          resp_json response = Inr body \<and> rpc_error body = Some e
          \<longrightarrow> snd (rpc fetch this method params) =
                Inl (Error (''Kora RPC error ['' @ showInt (err_code e) @ '']: ''
                              @ err_message e)))
       \<and> (\<not> (200 \<le> resp_status response \<and> resp_status response \<le> 299)
          \<longrightarrow> (\<exists>msg. snd (rpc fetch this method params) = Inl (Error msg) \<and>
                     includesStr msg (''HTTP error: '' @ showNat (resp_status response))))"
proof (intro conjI impI)
  assume "200 \<le> resp_status response \<and> resp_status response \<le> 299 \<and>
          resp_json response = Inr body \<and> rpc_error body = Some e"
  with assms show "snd (rpc fetch this method params) =
                Inl (Error (''Kora RPC error ['' @ showInt (err_code e) @ '']: ''
                              @ err_message e))"
    by (simp add: rpc_def run_bind_call responseOk_def run_throw_def)
next
  assume bad: "\<not> (200 \<le> resp_status response \<and> resp_status response \<le> 299)"
  let ?msg = "''Kora RPC HTTP error: '' @ showNat (resp_status response)
                @ '' '' @ resp_statusText response"
  from assms bad have "snd (rpc fetch this method params) = Inl (Error ?msg)"
    by (simp add: rpc_def run_bind_call responseOk_def run_throw_def)
  moreover have "includesStr ?msg (''HTTP error: '' @ showNat (resp_status response))"
    using includesStr_append [of "''Kora RPC ''"
        "''HTTP error: '' @ showNat (resp_status response)"
        "'' '' @ resp_statusText response"]
    by simp
  ultimately show "\<exists>msg. snd (rpc fetch this method params) = Inl (Error msg) \<and>
                     includesStr msg (''HTTP error: '' @ showNat (resp_status response))"
    by blast
qed

theorem rpc_errors_witness:
  "snd (rpc fetchRpcError \<lparr>cfg_rpcUrl = ''http://kora-test:8080''\<rparr> ''transferTransaction''
          (JObj [])) =
     Inl (Error ''Kora RPC error [-32600]: Invalid params'') \<and>
   (\<exists>msg. snd (rpc fetchHttpError \<lparr>cfg_rpcUrl = ''http://kora-test:8080''\<rparr>
                  ''signAndSendTransaction'' (JObj [])) = Inl (Error msg) \<and>
          includesStr msg ''HTTP error: 500'')"
proof -
  have code: "showInt (- 32600) = ''-32600''"
    by (simp add: showInt_def showNat.simps digitChar_def)
  have status: "showNat 500 = ''500''"
    by (simp add: showNat.simps digitChar_def)
  have protocol: "fetchRpcError (cfg_rpcUrl \<lparr>cfg_rpcUrl = ''http://kora-test:8080''\<rparr>)
          \<lparr>env_jsonrpc = ''2.0'', env_id = 1, env_method = ''transferTransaction'',
           env_params = JObj []\<rparr> =
        Inr \<lparr>resp_status = 200, resp_statusText = ''OK'',
             resp_json = Inr \<lparr>rpc_result = None,
                               rpc_error = Some \<lparr>err_code = - 32600,
                                                  err_message = ''Invalid params''\<rparr>\<rparr>,
             resp_text = Inl (Error ''body used'')\<rparr>"
    by (simp add: fetchRpcError_def)
  have http: "fetchHttpError (cfg_rpcUrl \<lparr>cfg_rpcUrl = ''http://kora-test:8080''\<rparr>)
          \<lparr>env_jsonrpc = ''2.0'', env_id = 1, env_method = ''signAndSendTransaction'',
           env_params = JObj []\<rparr> =
        Inr \<lparr>resp_status = 500, resp_statusText = ''Internal Server Error'',
             resp_json = Inl (Error ''no body''), resp_text = Inl (Error ''no body'')\<rparr>"
    by (simp add: fetchHttpError_def)
  show ?thesis
    using rpc_errors [where fetch = fetchRpcError, OF protocol,
        of "\<lparr>rpc_result = None, rpc_error = Some \<lparr>err_code = - 32600,
                                                    err_message = ''Invalid params''\<rparr>\<rparr>"
           "\<lparr>err_code = - 32600, err_message = ''Invalid params''\<rparr>"]
      rpc_errors [where fetch = fetchHttpError, OF http] code status
    by simp
qed

section \<open>Registration with an entry in the store\<close>




section \<open>The 402 flow\<close>

text \<open>
  Claim C5. When the first response has status 402 and a body text that \<^verbatim>\<open>JSON.parse\<close>
  rejects, \<^verbatim>\<open>x402Fetch\<close> returns \<^verbatim>\<open>success: false\<close> with status 402, and its only
  calls are the first request and the reading of its body: no transaction is built on
  either path and the request is not sent again.
\<close>

theorem unparseable_challenge:
  assumes "fetch 0 \<lparr>req_url = url, req_method = method,
                    req_headers = [''Content-Type'' \<mapsto> ''application/json''] ++ headers,
                    req_body = body\<rparr> = Inr resp"
    and "resp_status resp = 402"
    and "resp_text resp = Inr bodyText"
    and "JSON_parse lib bodyText = None"
  shows "x402Fetch lib fetch url kp method body headers rpcUrl koraClient =
           ([(Fetch \<lparr>req_url = url, req_method = method,
                     req_headers = [''Content-Type'' \<mapsto> ''application/json''] ++ headers,
                     req_body = body\<rparr>, True),
             (ReadText, True)],
            Inr \<lparr>x_success = False, x_response = None,
                 x_error = Some ''Could not parse x402 payment requirements from 402 response'',
                 x_status = Some 402\<rparr>)"
  using assms
  by (simp add: x402Fetch_def x402Steps_def run_bind_call parsePaymentRequirements_def
      run_return_def)

theorem unparseable_challenge_witness:
  "JSON_parse mockLibrary ''not json'' = None \<and>
   x402Fetch mockLibrary fetchUnparseable ''https://example.com'' mockKeypair ''GET'' None
     Map.empty None (Some mockKoraClient) =
     ([(Fetch \<lparr>req_url = ''https://example.com'', req_method = ''GET'',
               req_headers = [''Content-Type'' \<mapsto> ''application/json''] ++ Map.empty,
               req_body = None\<rparr>, True),
       (ReadText, True)],
      Inr \<lparr>x_success = False, x_response = None,
           x_error = Some ''Could not parse x402 payment requirements from 402 response'',
           x_status = Some 402\<rparr>)"
proof -
  let ?resp = "\<lparr>resp_status = 402, resp_statusText = ''Payment Required'',
                resp_json = Inl (Error ''not json''), resp_text = Inr ''not json''\<rparr>
                 :: json response"
  have answer: "fetchUnparseable 0
          \<lparr>req_url = ''https://example.com'', req_method = ''GET'',
           req_headers = [''Content-Type'' \<mapsto> ''application/json''] ++ Map.empty,
           req_body = None\<rparr> = Inr ?resp"
    by (simp add: fetchUnparseable_def)
  have status: "resp_status ?resp = 402" by simp
  have content: "resp_text ?resp = Inr ''not json''" by simp
  have rejected: "JSON_parse mockLibrary ''not json'' = None"
    by (simp add: mockLibrary_def parseJson_def skipSpace_def isJsonSpace_def
        parseNumber_def isDigit_def)
  show ?thesis
    using unparseable_challenge [where fetch = fetchUnparseable and headers = Map.empty
          and kp = mockKeypair and rpcUrl = None and koraClient = "Some mockKoraClient",
        OF answer status content rejected] rejected
    by simp
qed

lemma partiallySign_recovers:
  assumes "partiallySign lib kp b = (tr, Inr p)"
  shows "list_all (\<lambda>(c, ok). ok \<or> hasFallback c) tr"
  using assms
  by (auto simp: partiallySign_def run_bind_call run_catch_def run_return_def
      split: sum.splits prod.splits)

lemma readBody_recovers:
  assumes "readBody resp = (tr, Inr data)"
  shows "list_all (\<lambda>(c, ok). ok \<or> hasFallback c) tr"
  using assms
  by (auto simp: readBody_def run_bind_call run_call_def run_catch_def run_return_def
      split: sum.splits prod.splits)

lemma buildPaymentTransaction_recovers:
  assumes "buildPaymentTransaction lib kp requirements endpoint koraClient = (tr, Inr tx)"
  shows "list_all (\<lambda>(c, ok). ok \<or> hasFallback c) tr"
proof (cases koraClient)
  case None
  with assms show ?thesis
    by (auto simp: buildPaymentTransaction_def run_bind_call run_return_def
        split: sum.splits prod.splits)
next
  case (Some kora)
  let ?request = "\<lparr>amount = mathRound (pr_amount requirements),
                     token = pr_mint requirements, source = publicKey kp,
                     destination = pr_recipientWallet requirements\<rparr>"
  show ?thesis
  proof (cases "transferTransaction kora ?request")
    case (Inl e)
    with assms Some show ?thesis
      by (simp add: buildPaymentTransaction_def buildPaymentTransactionViaKora_def
          run_bind_call)
  next
    case (Inr built)
    let ?b = "bufferFromBase64 lib (tt_transaction built)"
    obtain tr1 out1 where ps: "partiallySign lib kp ?b = (tr1, out1)"
      by (cases "partiallySign lib kp ?b")
    show ?thesis
    proof (cases out1)
      case (Inl e)
      with assms Some Inr ps show ?thesis
        by (simp add: buildPaymentTransaction_def buildPaymentTransactionViaKora_def
            run_bind_call)
    next
      case p: (Inr p)
      from assms Some Inr ps p partiallySign_recovers [OF ps [unfolded p]] show ?thesis
        by (auto simp: buildPaymentTransaction_def buildPaymentTransactionViaKora_def
            run_bind_call run_return_def split: sum.splits)
    qed
  qed
qed


lemma x402Steps_result:
  assumes "x402Steps lib fetch url kp method body headers rpcUrl koraClient = (tr, Inr res)"
  shows "(x_success res \<longrightarrow>
            x_error res = None \<and> (\<exists>s. x_status res = Some s \<and> 200 \<le> s \<and> s \<le> 299) \<and>
            list_all (\<lambda>(c, ok). ok \<or> hasFallback c) tr)
       \<and> (\<not> x_success res \<longrightarrow>
            x_error res \<noteq> None \<or> (\<exists>s. x_status res = Some s \<and> \<not> (200 \<le> s \<and> s \<le> 299)))
       \<and> (\<not> list_all (\<lambda>(c, ok). ok \<or> hasFallback c) tr \<longrightarrow> x_error res \<noteq> None)"
proof -
  let ?req = "\<lparr>req_url = url, req_method = method,
               req_headers = [''Content-Type'' \<mapsto> ''application/json''] ++ headers,
               req_body = body\<rparr>"
  show ?thesis
  proof (cases "fetch 0 ?req")
    case (Inl e)
    with assms show ?thesis by (simp add: x402Steps_def run_bind_call)
  next
    case (Inr initialResp)
    show ?thesis
    proof (cases "resp_status initialResp = 402")
      case False
      obtain trb outb where rb: "readBody initialResp = (trb, outb)"
        by (cases "readBody initialResp")
      show ?thesis
      proof (cases outb)
        case (Inl e)
        with assms Inr False rb show ?thesis by (simp add: x402Steps_def run_bind_call)
      next
        case data: (Inr data)
        from assms Inr False rb data readBody_recovers [OF rb [unfolded data]]
        show ?thesis
          by (auto simp: x402Steps_def run_bind_call run_return_def responseOk_def)
      qed
    next
      case True
      show ?thesis
      proof (cases "resp_text initialResp")
        case (Inl e)
        with assms Inr True show ?thesis by (simp add: x402Steps_def run_bind_call)
      next
        case content: (Inr bodyText)
        let ?json = "case JSON_parse lib bodyText of Some j \<Rightarrow> j | None \<Rightarrow> JNull"
        show ?thesis
        proof (cases "parsePaymentRequirements lib ?json")
          case None
          with assms Inr True content show ?thesis
            by (auto simp: x402Steps_def run_bind_call run_return_def)
        next
          case (Some requirements)
          let ?cluster = "resolveCluster (pr_cluster requirements)"
          obtain trb outb where build:
            "buildPaymentTransaction lib kp requirements (x402Endpoint rpcUrl ?cluster)
               koraClient = (trb, outb)"
            by (cases "buildPaymentTransaction lib kp requirements
                         (x402Endpoint rpcUrl ?cluster) koraClient")
          show ?thesis
          proof (cases outb)
            case (Inl e)
            with assms Inr True content Some build show ?thesis
              by (auto simp: x402Steps_def run_bind_call run_return_def)
          next
            case tx: (Inr serializedTx)
            let ?paid = "\<lparr>req_url = url, req_method = method,
                          req_headers =
                            ([''Content-Type'' \<mapsto> ''application/json''] ++ headers)
                              (''X-Payment'' \<mapsto> buildXPaymentHeader serializedTx ?cluster),
                          req_body = body\<rparr>"
            note built = buildPaymentTransaction_recovers [OF build [unfolded tx]]
            show ?thesis
            proof (cases "fetch 1 ?paid")
              case (Inl e)
              with assms Inr True content Some build tx show ?thesis
                by (simp add: x402Steps_def run_bind_call run_return_def)
            next
              case paid: (Inr paidResp)
              obtain trp outp where rp: "readBody paidResp = (trp, outp)"
                by (cases "readBody paidResp")
              show ?thesis
              proof (cases outp)
                case (Inl e)
                with assms Inr True content Some build tx paid rp show ?thesis
                  by (simp add: x402Steps_def run_bind_call run_return_def)
              next
                case data: (Inr data)
                from assms Inr True content Some build tx paid rp data built
                  readBody_recovers [OF rp [unfolded data]]
                show ?thesis
                  by (auto simp: x402Steps_def run_bind_call run_return_def responseOk_def)
              qed
            qed
          qed
        qed
      qed
    qed
  qed
qed


lemma x402Steps_fetch_rejected:
  assumes "fetch 0 \<lparr>req_url = url, req_method = method,
                    req_headers = [''Content-Type'' \<mapsto> ''application/json''] ++ headers,
                    req_body = body\<rparr> = Inl e"
  shows "x402Steps lib fetch url kp method body headers rpcUrl koraClient =
           ([(Fetch \<lparr>req_url = url, req_method = method,
                     req_headers = [''Content-Type'' \<mapsto> ''application/json''] ++ headers,
                     req_body = body\<rparr>, False)], Inl e)"
  using assms by (simp add: x402Steps_def run_bind_call)

lemma x402Steps_build_throws:
  assumes "fetch 0 \<lparr>req_url = url, req_method = method,
                    req_headers = [''Content-Type'' \<mapsto> ''application/json''] ++ headers,
                    req_body = body\<rparr> = Inr resp"
    and "resp_status resp = 402"
    and "resp_text resp = Inr bodyText"
    and "parsePaymentRequirements lib
           (case JSON_parse lib bodyText of Some j \<Rightarrow> j | None \<Rightarrow> JNull) = Some requirements"
    and "snd (buildPaymentTransaction lib kp requirements
                (x402Endpoint rpcUrl (resolveCluster (pr_cluster requirements))) koraClient)
           = Inl e"
  shows "snd (x402Steps lib fetch url kp method body headers rpcUrl koraClient) =
           Inr \<lparr>x_success = False, x_response = None,
                x_error = Some (''Failed to build x402 payment transaction: '' @ errorText e),
                x_status = Some 402\<rparr>"
proof -
  obtain trb where "buildPaymentTransaction lib kp requirements
                (x402Endpoint rpcUrl (resolveCluster (pr_cluster requirements))) koraClient
           = (trb, Inl e)"
    using assms(5)
    by (cases "buildPaymentTransaction lib kp requirements
                (x402Endpoint rpcUrl (resolveCluster (pr_cluster requirements))) koraClient")
       simp
  with assms(1-4) show ?thesis
    by (simp add: x402Steps_def run_bind_call run_return_def)
qed

lemma unrecovered_call:
  "(\<exists>c. (c, False) \<in> set tr \<and> \<not> hasFallback c)
     \<longleftrightarrow> \<not> list_all (\<lambda>(c, ok). ok \<or> hasFallback c) tr"
  by (auto simp: list_all_iff)

text \<open>
  Claim C9. Whatever the collaborators do, \<^verbatim>\<open>x402Fetch\<close> returns a result and throws
  nothing. A result with \<^verbatim>\<open>success: false\<close> carries an error message or a status
  that is not 2xx, and a result with \<^verbatim>\<open>success: true\<close> carries a 2xx status and no
  error message. Every failure inside the flow ends in \<^verbatim>\<open>success: false\<close> with an
  error message: this is so whenever a call has thrown that has no fallback (the
  fallbacks being the text of a body that is not JSON, and the legacy transaction after
  a versioned attempt that has thrown). In particular a first request that is rejected
  gives the text of its exception as the error, and an exception of
  \<^verbatim>\<open>buildPaymentTransaction\<close> gives that text after
  \<^verbatim>\<open>Failed to build x402 payment transaction: \<close>, with the status 402.
\<close>

theorem x402Fetch_total:
  "\<exists>tr res.
     x402Fetch lib fetch url kp method body headers rpcUrl koraClient = (tr, Inr res) \<and>
     (\<not> x_success res \<longrightarrow>
        x_error res \<noteq> None \<or> (\<exists>s. x_status res = Some s \<and> \<not> (200 \<le> s \<and> s \<le> 299))) \<and>
     (x_success res \<longrightarrow>
        x_error res = None \<and> (\<exists>s. x_status res = Some s \<and> 200 \<le> s \<and> s \<le> 299)) \<and>
     ((\<exists>c. (c, False) \<in> set tr \<and> \<not> hasFallback c) \<longrightarrow>
        \<not> x_success res \<and> x_error res \<noteq> None) \<and>
     (\<forall>e. fetch 0 \<lparr>req_url = url, req_method = method,
                     req_headers = [''Content-Type'' \<mapsto> ''application/json''] ++ headers,
                     req_body = body\<rparr> = Inl e \<longrightarrow>
          res = \<lparr>x_success = False, x_response = None, x_error = Some (errorText e),
                 x_status = None\<rparr>) \<and>
     (\<forall>resp bodyText requirements e.
        fetch 0 \<lparr>req_url = url, req_method = method,
                  req_headers = [''Content-Type'' \<mapsto> ''application/json''] ++ headers,
                  req_body = body\<rparr> = Inr resp \<and>
        resp_status resp = 402 \<and> resp_text resp = Inr bodyText \<and>
        parsePaymentRequirements lib
          (case JSON_parse lib bodyText of Some j \<Rightarrow> j | None \<Rightarrow> JNull) = Some requirements \<and>
        snd (buildPaymentTransaction lib kp requirements
               (x402Endpoint rpcUrl (resolveCluster (pr_cluster requirements))) koraClient)
          = Inl e \<longrightarrow>
          res = \<lparr>x_success = False, x_response = None,
                 x_error = Some (''Failed to build x402 payment transaction: '' @ errorText e),
                 x_status = Some 402\<rparr>)"
proof -
  let ?steps = "x402Steps lib fetch url kp method body headers rpcUrl koraClient"
  obtain tr out where steps: "?steps = (tr, out)" by (cases ?steps)
  show ?thesis
  proof (cases out)
    case (Inl e)
    let ?res = "\<lparr>x_success = False, x_response = None, x_error = Some (errorText e),
                 x_status = None\<rparr>"
    have run: "x402Fetch lib fetch url kp method body headers rpcUrl koraClient
                 = (tr, Inr ?res)"
      using steps Inl by (simp add: x402Fetch_def run_return_def)
    have rejected: "e' = e"
      if "fetch 0 \<lparr>req_url = url, req_method = method,
                     req_headers = [''Content-Type'' \<mapsto> ''application/json''] ++ headers,
                     req_body = body\<rparr> = Inl e'" for e'
      using x402Steps_fetch_rejected [where fetch = fetch and headers = headers and lib = lib
          and kp = kp and rpcUrl = rpcUrl and koraClient = koraClient, OF that] steps Inl
      by simp
    have build: False
      if "fetch 0 \<lparr>req_url = url, req_method = method,
                  req_headers = [''Content-Type'' \<mapsto> ''application/json''] ++ headers,
                  req_body = body\<rparr> = Inr resp"
        and "resp_status resp = 402" and "resp_text resp = Inr bodyText"
        and "parsePaymentRequirements lib
          (case JSON_parse lib bodyText of Some j \<Rightarrow> j | None \<Rightarrow> JNull) = Some requirements"
        and "snd (buildPaymentTransaction lib kp requirements
               (x402Endpoint rpcUrl (resolveCluster (pr_cluster requirements))) koraClient)
          = Inl e'" for resp bodyText requirements e'
      using x402Steps_build_throws [where fetch = fetch and headers = headers, OF that] steps Inl by simp
    show ?thesis
      by (rule exI [of _ tr], rule exI [of _ ?res]) (use run rejected build in \<open>simp, blast\<close>)
  next
    case (Inr res)
    have run: "x402Fetch lib fetch url kp method body headers rpcUrl koraClient
                 = (tr, Inr res)"
      using steps Inr by (simp add: x402Fetch_def)
    note shape = x402Steps_result [OF steps [unfolded Inr]]
    have rejected: False
      if "fetch 0 \<lparr>req_url = url, req_method = method,
                     req_headers = [''Content-Type'' \<mapsto> ''application/json''] ++ headers,
                     req_body = body\<rparr> = Inl e'" for e'
      using x402Steps_fetch_rejected [where fetch = fetch and headers = headers and lib = lib
          and kp = kp and rpcUrl = rpcUrl and koraClient = koraClient, OF that] steps Inr
      by simp
    have build: "res = \<lparr>x_success = False, x_response = None,
                 x_error = Some (''Failed to build x402 payment transaction: '' @ errorText e'),
                 x_status = Some 402\<rparr>"
      if "fetch 0 \<lparr>req_url = url, req_method = method,
                  req_headers = [''Content-Type'' \<mapsto> ''application/json''] ++ headers,
                  req_body = body\<rparr> = Inr resp"
        and "resp_status resp = 402" and "resp_text resp = Inr bodyText"
        and "parsePaymentRequirements lib
          (case JSON_parse lib bodyText of Some j \<Rightarrow> j | None \<Rightarrow> JNull) = Some requirements"
        and "snd (buildPaymentTransaction lib kp requirements
               (x402Endpoint rpcUrl (resolveCluster (pr_cluster requirements))) koraClient)
          = Inl e'" for resp bodyText requirements e'
      using x402Steps_build_throws [where fetch = fetch and headers = headers, OF that] steps Inr by simp
    have unrecovered: "\<not> x_success res \<and> x_error res \<noteq> None"
      if "\<exists>c. (c, False) \<in> set tr \<and> \<not> hasFallback c"
      using that shape unfolding unrecovered_call by blast
    show ?thesis
      by (rule exI [of _ tr], rule exI [of _ res])
         (use run shape rejected build unrecovered in blast)
  qed
qed


theorem x402Fetch_total_witness:
  "x402Fetch mockLibrary fetchUnreachable ''https://example.com'' mockKeypair ''GET''
       None Map.empty None None =
     ([(Fetch \<lparr>req_url = ''https://example.com'', req_method = ''GET'',
               req_headers = [''Content-Type'' \<mapsto> ''application/json''] ++ Map.empty,
               req_body = None\<rparr>, False)],
      Inr \<lparr>x_success = False, x_response = None, x_error = Some ''Network error'',
           x_status = None\<rparr>) \<and>
   x402Fetch paymentLibrary fetchPaymentRequired ''https://example.com'' mockKeypair ''GET''
       None Map.empty None (Some downKoraClient) =
     ([(Fetch \<lparr>req_url = ''https://example.com'', req_method = ''GET'',
               req_headers = [''Content-Type'' \<mapsto> ''application/json''] ++ Map.empty,
               req_body = None\<rparr>, True),
       (ReadText, True),
       (KoraTransferTransaction
          \<lparr>amount = 1000000, token = ''EPjFWdd5AufqSSqeM2qN1xzybapC8G4wEGGkZwyTDt1v'',
           source = ''userWalletAddress'', destination = ''recipientWallet123''\<rparr>, False)],
      Inr \<lparr>x_success = False, x_response = None,
           x_error = Some ''Failed to build x402 payment transaction: Kora server down'',
           x_status = Some 402\<rparr>)"
proof -
  have unreachable: "x402Fetch mockLibrary fetchUnreachable ''https://example.com'' mockKeypair
       ''GET'' None Map.empty None None =
     ([(Fetch \<lparr>req_url = ''https://example.com'', req_method = ''GET'',
               req_headers = [''Content-Type'' \<mapsto> ''application/json''] ++ Map.empty,
               req_body = None\<rparr>, False)],
      Inr \<lparr>x_success = False, x_response = None, x_error = Some ''Network error'',
           x_status = None\<rparr>)"
    by (simp add: x402Fetch_def x402Steps_def run_bind_call fetchUnreachable_def
        run_return_def Error_def errorText_def)
  have requirements: "parsePaymentRequirements paymentLibrary paymentBody =
      Some \<lparr>pr_recipientWallet = ''recipientWallet123'',
            pr_tokenAccount = ''recipientTokenAccount'',
            pr_mint = ''EPjFWdd5AufqSSqeM2qN1xzybapC8G4wEGGkZwyTDt1v'',
            pr_amount = 1000000, pr_amountUSDC = 1, pr_cluster = ''mainnet-beta'',
            pr_message = Some ''Pay to access this resource''\<rparr>"
    by (simp add: parsePaymentRequirements_def paymentBody_def
        stringProp_def numberProp_def falsy_def Let_def)
  have rounded: "mathRound 1000000 = 1000000"
    by (simp add: mathRound_def floor_eq_iff)
  have down: "x402Fetch paymentLibrary fetchPaymentRequired ''https://example.com'' mockKeypair
       ''GET'' None Map.empty None (Some downKoraClient) =
     ([(Fetch \<lparr>req_url = ''https://example.com'', req_method = ''GET'',
               req_headers = [''Content-Type'' \<mapsto> ''application/json''] ++ Map.empty,
               req_body = None\<rparr>, True),
       (ReadText, True),
       (KoraTransferTransaction
          \<lparr>amount = 1000000, token = ''EPjFWdd5AufqSSqeM2qN1xzybapC8G4wEGGkZwyTDt1v'',
           source = ''userWalletAddress'', destination = ''recipientWallet123''\<rparr>, False)],
      Inr \<lparr>x_success = False, x_response = None,
           x_error = Some ''Failed to build x402 payment transaction: Kora server down'',
           x_status = Some 402\<rparr>)"
    by (simp add: x402Fetch_def x402Steps_def run_bind_call fetchPaymentRequired_def
        paymentLibrary_def requirements [unfolded paymentLibrary_def] rounded
        buildPaymentTransaction_def buildPaymentTransactionViaKora_def
        downKoraClient_def mockKoraClient_def mockKeypair_def
        run_return_def Error_def errorText_def)
  show ?thesis
    using x402Fetch_total [of mockLibrary fetchUnreachable "''https://example.com''"
        mockKeypair "''GET''" None Map.empty None None]
      x402Fetch_total [of paymentLibrary fetchPaymentRequired "''https://example.com''"
        mockKeypair "''GET''" None Map.empty None "Some downKoraClient"]
      unreachable down
    by blast
qed

section \<open>The payment header and its reading\<close>

lemma indexOf_nth: "distinct xs \<Longrightarrow> n < length xs \<Longrightarrow> indexOf xs (xs ! n) = Some n"
proof (induction xs arbitrary: n)
  case Nil
  then show ?case by simp
next
  case (Cons x xs)
  show ?case
  proof (cases n)
    case 0
    then show ?thesis by simp
  next
    case (Suc m)
    with Cons.prems have "xs ! m \<in> set xs" and "x \<notin> set xs" by simp_all
    then have "x \<noteq> xs ! m" by auto
    with Suc Cons show ?thesis by simp
  qed
qed

lemma distinct_base64Alphabet: "distinct base64Alphabet"
  by (simp add: base64Alphabet_def)

lemma length_base64Alphabet: "length base64Alphabet = 64"
  by (simp add: base64Alphabet_def)

lemma base64Index_base64Char: "base64Index (base64Char n) = Some (n mod 64)"
  unfolding base64Index_def base64Char_def
  by (rule indexOf_nth [OF distinct_base64Alphabet]) (simp add: length_base64Alphabet)

lemma base64Char_not_pad: "base64Char n \<noteq> CHR ''=''"
proof -
  have "base64Char n \<in> set base64Alphabet"
    unfolding base64Char_def by (rule nth_mem) (simp add: length_base64Alphabet)
  moreover have "CHR ''='' \<notin> set base64Alphabet"
    by (simp add: base64Alphabet_def)
  ultimately show ?thesis by auto
qed

lemma sextets:
  fixes a b c :: nat
  assumes "a < 256" "b < 256" "c < 256"
  shows "(a div 4) mod 64 = a div 4"
    and "((a mod 4) * 16 + b div 16) mod 64 = (a mod 4) * 16 + b div 16"
    and "((b mod 16) * 4 + c div 64) mod 64 = (b mod 16) * 4 + c div 64"
    and "((a mod 4) * 16) mod 64 = (a mod 4) * 16"
    and "((b mod 16) * 4) mod 64 = (b mod 16) * 4"
  using assms by (simp_all add: mod_less)


lemma div_mult_add_small:
  fixes q r k :: nat
  assumes "r < k"
  shows "(q * k + r) div k = q" and "(q * k + r) mod k = r"
  using assms by simp_all

lemma octets:
  fixes a b c :: nat
  assumes "a < 256" "b < 256" "c < 256"
  shows "a div 4 * 4 + ((a mod 4) * 16 + b div 16) div 16 = a"
    and "(((a mod 4) * 16 + b div 16) mod 16) * 16 + ((b mod 16) * 4 + c div 64) div 4 = b"
    and "(((b mod 16) * 4 + c div 64) mod 4) * 64 + c mod 64 = c"
    and "a div 4 * 4 + ((a mod 4) * 16) div 16 = a"
    and "(((a mod 4) * 16 + b div 16) mod 16) * 16 + ((b mod 16) * 4) div 4 = b"
proof -
  have b16: "b div 16 < 16" and c64: "c div 64 < 4"
    using assms by simp_all
  show "a div 4 * 4 + ((a mod 4) * 16 + b div 16) div 16 = a"
    using div_mult_add_small(1) [OF b16, of "a mod 4"] by simp
  show "(((a mod 4) * 16 + b div 16) mod 16) * 16 + ((b mod 16) * 4 + c div 64) div 4 = b"
    using div_mult_add_small(2) [OF b16, of "a mod 4"] div_mult_add_small(1) [OF c64, of "b mod 16"]
    by simp
  show "(((b mod 16) * 4 + c div 64) mod 4) * 64 + c mod 64 = c"
    using div_mult_add_small(2) [OF c64, of "b mod 16"] by simp
  show "a div 4 * 4 + ((a mod 4) * 16) div 16 = a"
    by simp
  show "(((a mod 4) * 16 + b div 16) mod 16) * 16 + ((b mod 16) * 4) div 4 = b"
    using div_mult_add_small(2) [OF b16, of "a mod 4"] by simp
qed


lemma base64_roundtrip:
  "list_all (\<lambda>b. b < 256) bs \<Longrightarrow> base64Decode (base64Encode bs) = Some bs"
proof (induction bs rule: base64Encode.induct)
  case 1
  show ?case by simp
next
  case (2 a)
  then show ?case
    using octets(4) [of a 0 0] sextets(1,4) [of a 0 0]
    by (simp add: base64Index_base64Char base64Char_not_pad)
next
  case (3 a b)
  then show ?case
    using octets(1,5) [of a b 0] sextets(1,2,5) [of a b 0]
    by (simp add: base64Index_base64Char base64Char_not_pad base64Triple_def)
next
  case (4 a b c rest)
  then show ?case
    using octets(1,2,3) [of a b c] sextets(1,2,3) [of a b c]
    by (simp add: base64Index_base64Char base64Char_not_pad base64Triple_def)
qed

lemma byte_parts:
  fixes n :: nat
  assumes "n < 256"
  shows "n div 64 < 4" and "n div 64 * 64 + n mod 64 = n"
  using assms by simp_all

lemma mod_64_less_128: "(n :: nat) mod 64 < 128"
proof -
  have "n mod 64 < 64" by simp
  then show ?thesis by linarith
qed

lemma utf8Char_bytes: "list_all (\<lambda>b. b < 256) (utf8Char c)"
  using byte_parts(1) [OF nat_of_char_less_256, of c]
  by (simp add: utf8Char_def Let_def mod_64_less_128)

lemma utf8Encode_bytes: "list_all (\<lambda>b. b < 256) (utf8Encode s)"
  by (induction s) (simp_all add: utf8Encode_def utf8Char_bytes)

lemma utf8Decode_utf8Char:
  "utf8Decode (utf8Char c @ bs) = map_option ((#) c) (utf8Decode bs)"
proof (cases "(of_char c :: nat) < 128")
  case True
  then show ?thesis
    by (cases bs) (simp_all add: utf8Char_def Let_def)
next
  case False
  let ?n = "of_char c :: nat"
  have enc: "utf8Char c = [192 + ?n div 64, 128 + ?n mod 64]"
    using False by (simp add: utf8Char_def Let_def)
  have lt4: "?n div 64 < 4"
    by (rule byte_parts(1)) simp
  have ge2: "2 \<le> ?n div 64"
    using False by simp
  have joined: "(192 + ?n div 64 - 192) * 64 + (128 + ?n mod 64 - 128) = ?n"
    by simp
  have "utf8Decode ([192 + ?n div 64, 128 + ?n mod 64] @ bs) =
          map_option ((#) (char_of ((192 + ?n div 64 - 192) * 64 + (128 + ?n mod 64 - 128))))
            (utf8Decode bs)"
    using lt4 ge2 by (simp add: mod_64_less_128)
  then show ?thesis
    by (simp only: enc joined char_of_char)
qed

lemma utf8_roundtrip: "utf8Decode (utf8Encode s) = Some s"
  by (induction s) (simp_all add: utf8Encode_def utf8Decode_utf8Char)

lemma hexValue_hexDigit: "hexValue (hexDigit d) = Some (d mod 16)"
proof -
  have "indexOf ''0123456789abcdef'' (''0123456789abcdef'' ! (d mod 16)) = Some (d mod 16)"
    by (rule indexOf_nth) simp_all
  then show ?thesis by (simp add: hexValue_def hexDigit_def)
qed

lemma hexValue_zero: "hexValue (CHR ''0'') = Some 0"
  by (simp add: hexValue_def)

lemma control_value:
  fixes n :: nat
  assumes "n < 32"
  shows "((0 * 16 + 0) * 16 + (n div 16) mod 16) * 16 + n mod 16 = n"
  using assms by simp

lemma parseStringBody_escapeChar:
  "parseStringBody (escapeChar c @ t) = consChar c (parseStringBody t)"
proof (cases "c \<in> set [CHR 0x22, CHR 0x5C, CHR 0x08, CHR 0x0C, CHR 0x0A, CHR 0x0D, CHR 0x09]")
  case True
  then show ?thesis
    by (auto simp: escapeChar_def unescape_def)
next
  case False
  show ?thesis
  proof (cases "(of_char c :: nat) < 32")
    case True
    let ?n = "of_char c :: nat"
    from True have "?n < 256" by simp
    have esc: "escapeChar c = [CHR 0x5C, CHR ''u'', CHR ''0'', CHR ''0'',
                               hexDigit (?n div 16), hexDigit ?n]"
      using False True by (simp add: escapeChar_def)
    have "parseStringBody ([CHR 0x5C, CHR ''u'', CHR ''0'', CHR ''0'',
                            hexDigit (?n div 16), hexDigit ?n] @ t) =
          consChar (char_of ?n) (parseStringBody t)"
      using control_value [OF True] True
      by (simp add: hexValue_hexDigit hexValue_zero)
    then show ?thesis by (simp only: esc char_of_char)
  next
    case large: False
    with False show ?thesis
      by (simp add: escapeChar_def)
  qed
qed

lemma parseStringBody_escape:
  "parseStringBody (concat (map escapeChar s) @ CHR 0x22 # rest) = Some (s, rest)"
  by (induction s) (simp_all add: parseStringBody_escapeChar consChar_def)

lemma showNat_one: "showNat (Suc 0) = ''1''"
  by (simp add: showNat.simps [of "Suc 0"] digitChar_def)

lemma parseValue_payload:
  "parseValue (Suc (Suc (Suc (Suc (Suc (Suc (Suc (Suc k))))))))
     (stringifyPayload \<lparr>x402Version = 1, scheme = sc, pp_network = nw,
                        payload = \<lparr>serializedTransaction = tx\<rparr>\<rparr>) =
   Some (JObj [(''x402Version'', JNum 1), (''scheme'', JStr sc), (''network'', JStr nw),
               (''payload'', JObj [(''serializedTransaction'', JStr tx)])], [])"
  by (simp add: stringifyPayload_def quoteJSONString_def showNat_one
      skipSpace_def isJsonSpace_def parseStringBody_escapeChar parseStringBody_escape
      consChar_def parseNumber_def parseFraction_def parseExponent_def isDigit_def
      digitsValue_def addMember_def Let_def)


lemma parseJson_payload:
  "parseJson (stringifyPayload \<lparr>x402Version = 1, scheme = sc, pp_network = nw,
                                payload = \<lparr>serializedTransaction = tx\<rparr>\<rparr>) =
   Some (JObj [(''x402Version'', JNum 1), (''scheme'', JStr sc), (''network'', JStr nw),
               (''payload'', JObj [(''serializedTransaction'', JStr tx)])])"
proof -
  let ?text = "stringifyPayload \<lparr>x402Version = 1, scheme = sc, pp_network = nw,
                                  payload = \<lparr>serializedTransaction = tx\<rparr>\<rparr>"
  have "7 \<le> length ?text"
    by (simp add: stringifyPayload_def quoteJSONString_def)
  then obtain k where "length ?text = 7 + k"
    using le_Suc_ex by blast
  then have fuel: "Suc (length ?text) = Suc (Suc (Suc (Suc (Suc (Suc (Suc (Suc k)))))))"
    by simp
  show ?thesis
    unfolding parseJson_def fuel parseValue_payload
    by (simp add: skipSpace_def)
qed

text \<open>
  Claim C7. For every serialized transaction \<open>s\<close> and every cluster designator \<open>c\<close>,
  decoding the header built by \<^verbatim>\<open>buildXPaymentHeader\<close> from base64 and parsing it as
  JSON gives an object with \<^verbatim>\<open>x402Version\<close> 1, \<^verbatim>\<open>scheme\<close> \<^verbatim>\<open>exact\<close>, the canonical
  network name, and \<^verbatim>\<open>payload.serializedTransaction\<close> equal to \<open>s\<close>.
\<close>

theorem payment_header_roundtrip:
  "decodeXPaymentHeader (buildXPaymentHeader s c) =
     Some (JObj [(''x402Version'', JNum 1),
                 (''scheme'', JStr ''exact''),
                 (''network'', JStr (case X402_NETWORK (resolveCluster c) of
                                       Some n \<Rightarrow> n
                                     | None \<Rightarrow> ''solana-devnet'')),
                 (''payload'', JObj [(''serializedTransaction'', JStr s)])])"
  by (simp add: decodeXPaymentHeader_def buildXPaymentHeader_def Let_def
      base64_roundtrip utf8Encode_bytes utf8_roundtrip parseJson_payload
      del: One_nat_def)

theorem payment_header_roundtrip_witness:
  "decodeXPaymentHeader (buildXPaymentHeader ''koraSignedTxBase64'' ''mainnet-beta'') =
     Some (JObj [(''x402Version'', JNum 1),
                 (''scheme'', JStr ''exact''),
                 (''network'', JStr ''solana-mainnet''),
                 (''payload'', JObj [(''serializedTransaction'', JStr ''koraSignedTxBase64'')])])"
  using payment_header_roundtrip [of "''koraSignedTxBase64''" "''mainnet-beta''"]
  by (simp add: X402_NETWORK_def resolveCluster_def toLowerCase_def trim_def isUpperCase_def
      isWhiteSpace_def)

end
